theory Spec2Isabelle
  imports Main "HOL-Library.Log_Nat" "HOL-Library.Multiset"
begin

section \<open>JavaScript values\<close>

text \<open>
  The handlers of \<^verbatim>\<open>src/index.ts\<close> work on parsed JSON bodies, query strings and
  the rows of the \<^verbatim>\<open>transaction\<close> table. This section models the part of the
  language the handlers rely on: strings with \<^verbatim>\<open>trim\<close> and \<^verbatim>\<open>toUpperCase\<close>,
  numbers with \<^verbatim>\<open>Number(...)\<close> and \<^verbatim>\<open>toString()\<close>, truthiness, and the
  conversions \<^verbatim>\<open>ToString\<close> and \<^verbatim>\<open>ToNumber\<close> on JSON values.

  Strings are ASCII text: one \<^typ>\<open>char\<close> per code unit. White space is the ECMAScript
  white space and line terminators found in ASCII.
\<close>

subsection \<open>Strings\<close>

definition is_ws :: "char \<Rightarrow> bool" where
  "is_ws c = (c \<in> set [CHR 0x09, CHR 0x0A, CHR 0x0B, CHR 0x0C, CHR 0x0D, CHR 0x20])"

text \<open>\<^verbatim>\<open>String.prototype.trim\<close>\<close>

definition trim :: "string \<Rightarrow> string" where
  "trim s = rev (dropWhile is_ws (rev (dropWhile is_ws s)))"

definition upper_char :: "char \<Rightarrow> char" where
  "upper_char c =
     (let n = (of_char c :: nat) in if 97 \<le> n \<and> n \<le> 122 then char_of (n - 32) else c)"

text \<open>\<^verbatim>\<open>String.prototype.toUpperCase\<close>\<close>

definition toUpperCase :: "string \<Rightarrow> string" where
  "toUpperCase s = map upper_char s"

text \<open>\<^verbatim>\<open>String.prototype.split\<close> with a one-character separator.\<close>

fun split_on :: "char \<Rightarrow> string \<Rightarrow> string list" where
  "split_on sep [] = [[]]"
| "split_on sep (c # cs) =
     (if c = sep then [] # split_on sep cs
      else (case split_on sep cs of p # ps \<Rightarrow> (c # p) # ps | [] \<Rightarrow> [[c]]))"

subsection \<open>Numbers\<close>

text \<open>
  A Number is an IEEE 754 double: not-a-number, an infinity, or a finite value, kept
  here as the rational it denotes. Negative zero behaves as zero in every operation the
  handlers use (truthiness, \<^verbatim>\<open>toString\<close>, addition, comparison) and is identified
  with it. Arithmetic is exact arithmetic followed by rounding to the nearest double,
  ties to even (\<open>rnd\<close>).
\<close>

datatype jsnum = NaN | PInf | NInf | Fin rat

definition pow2 :: "int \<Rightarrow> rat" where
  "pow2 e = (if 0 \<le> e then 2 ^ nat e else 1 / 2 ^ nat (- e))"

definition pow10 :: "int \<Rightarrow> rat" where
  "pow10 e = (if 0 \<le> e then 10 ^ nat e else 1 / 10 ^ nat (- e))"

text \<open>\<open>flog2 x\<close> is \<open>\<lfloor>log\<^sub>2 x\<rfloor>\<close> for positive \<open>x\<close>.\<close>

definition flog2_fix :: "rat \<Rightarrow> int \<Rightarrow> int" where
  "flog2_fix x d = (if pow2 d \<le> x then d else d - 1)"

definition flog2 :: "rat \<Rightarrow> int" where
  "flog2 x = (case quotient_of x of (p, q) \<Rightarrow> flog2_fix x (bitlen p - bitlen q))"

text \<open>Rounding to the nearest integer, a tie to the even one; \<open>f\<close> is \<open>\<lfloor>x\<rfloor>\<close>.\<close>

definition round_from :: "rat \<Rightarrow> int \<Rightarrow> int" where
  "round_from x f =
     (if x - of_int f < 1 / 2 then f
      else if 1 / 2 < x - of_int f then f + 1
      else if even f then f else f + 1)"

definition round_half_even :: "rat \<Rightarrow> int" where
  "round_half_even x = round_from x \<lfloor>x\<rfloor>"

text \<open>
  Rounding a rational to a double: a significand \<open>m\<close> of at most 53 bits at an exponent
  \<open>e\<close> down to the subnormal \<open>- 1074\<close>. The rounded value \<open>m \<times> 2\<^sup>e\<close> overflows to an
  infinity when it reaches \<open>2\<^sup>1\<^sup>0\<^sup>2\<^sup>4\<close>, that is, when \<open>m\<close> shifted by \<open>e\<close> has more than
  1024 bits.
\<close>

definition rnd_pack :: "bool \<Rightarrow> int \<Rightarrow> int \<Rightarrow> jsnum" where
  "rnd_pack positive m e =
     (if 1024 < bitlen m + e then (if positive then PInf else NInf)
      else Fin (if positive then of_int m * pow2 e else - (of_int m * pow2 e)))"

definition rnd_at :: "rat \<Rightarrow> int \<Rightarrow> jsnum" where
  "rnd_at x e = rnd_pack (0 < x) (round_half_even (\<bar>x\<bar> / pow2 e)) e"

definition rnd :: "rat \<Rightarrow> jsnum" where
  "rnd x = (if x = 0 then Fin 0 else rnd_at x (max (flog2 \<bar>x\<bar> - 52) (- 1074)))"

definition num_neg :: "jsnum \<Rightarrow> jsnum" where
  "num_neg a = (case a of NaN \<Rightarrow> NaN | PInf \<Rightarrow> NInf | NInf \<Rightarrow> PInf | Fin x \<Rightarrow> Fin (- x))"

text \<open>The operators \<^verbatim>\<open>+\<close>, \<^verbatim>\<open>-\<close> and \<^verbatim>\<open>*\<close> on Numbers.\<close>

definition num_add :: "jsnum \<Rightarrow> jsnum \<Rightarrow> jsnum" where
  "num_add a b =
     (case (a, b) of
        (NaN, _) \<Rightarrow> NaN
      | (_, NaN) \<Rightarrow> NaN
      | (PInf, NInf) \<Rightarrow> NaN
      | (NInf, PInf) \<Rightarrow> NaN
      | (PInf, _) \<Rightarrow> PInf
      | (_, PInf) \<Rightarrow> PInf
      | (NInf, _) \<Rightarrow> NInf
      | (_, NInf) \<Rightarrow> NInf
      | (Fin x, Fin y) \<Rightarrow> rnd (x + y))"

definition num_sub :: "jsnum \<Rightarrow> jsnum \<Rightarrow> jsnum" where
  "num_sub a b = num_add a (num_neg b)"

definition num_sign :: "jsnum \<Rightarrow> int" where
  "num_sign a = (case a of NaN \<Rightarrow> 0 | PInf \<Rightarrow> 1 | NInf \<Rightarrow> - 1 | Fin x \<Rightarrow> sgn \<lfloor>x * 0 + sgn x\<rfloor>)"

definition num_mul :: "jsnum \<Rightarrow> jsnum \<Rightarrow> jsnum" where
  "num_mul a b =
     (case (a, b) of
        (NaN, _) \<Rightarrow> NaN
      | (_, NaN) \<Rightarrow> NaN
      | (Fin x, Fin y) \<Rightarrow> rnd (x * y)
      | _ \<Rightarrow> (let s = num_sign a * num_sign b
              in if s = 0 then NaN else if 0 < s then PInf else NInf))"

text \<open>\<^verbatim>\<open>Number.isNaN\<close> and the truthiness of a Number.\<close>

definition isNaN :: "jsnum \<Rightarrow> bool" where
  "isNaN a = (a = NaN)"

definition num_truthy :: "jsnum \<Rightarrow> bool" where
  "num_truthy a = (a \<noteq> NaN \<and> a \<noteq> Fin 0)"

subsubsection \<open>Reading a Number from a string\<close>

definition is_digit :: "char \<Rightarrow> bool" where
  "is_digit c = (48 \<le> (of_char c :: nat) \<and> (of_char c :: nat) \<le> 57)"

text \<open>The value of a digit in a radix up to 16; \<open>None\<close> when the character is no digit of it.\<close>

definition digit_in :: "nat \<Rightarrow> char \<Rightarrow> nat option" where
  "digit_in radix c =
     (let n = (of_char c :: nat);
          v = (if 48 \<le> n \<and> n \<le> 57 then Some (n - 48)
               else if 97 \<le> n \<and> n \<le> 102 then Some (n - 87)
               else if 65 \<le> n \<and> n \<le> 70 then Some (n - 55)
               else None)
      in case v of None \<Rightarrow> None | Some d \<Rightarrow> if d < radix then Some d else None)"

definition digits_value :: "nat \<Rightarrow> string \<Rightarrow> int" where
  "digits_value radix s =
     foldl (\<lambda>a c. int radix * a + (case digit_in radix c of Some d \<Rightarrow> int d | None \<Rightarrow> 0)) 0 s"

definition all_digits :: "nat \<Rightarrow> string \<Rightarrow> bool" where
  "all_digits radix s = (s \<noteq> [] \<and> list_all (\<lambda>c. digit_in radix c \<noteq> None) s)"

text \<open>\<^verbatim>\<open>ExponentPart\<close>: absent, or \<^verbatim>\<open>e\<close> with an optional sign and at least one digit.\<close>

definition parse_exponent :: "string \<Rightarrow> int option" where
  "parse_exponent s =
     (case s of
        [] \<Rightarrow> Some 0
      | c # t \<Rightarrow>
          if c = CHR ''e'' \<or> c = CHR ''E'' then
            (case t of
               [] \<Rightarrow> None
             | d # u \<Rightarrow>
                 if d = CHR ''+'' then (if all_digits 10 u then Some (digits_value 10 u) else None)
                 else if d = CHR ''-'' then (if all_digits 10 u then Some (- digits_value 10 u) else None)
                 else if all_digits 10 t then Some (digits_value 10 t) else None)
          else None)"

text \<open>
  \<^verbatim>\<open>StrUnsignedDecimalLiteral\<close> without \<^verbatim>\<open>Infinity\<close>: digits, an optional fraction and
  an optional exponent, with at least one digit before or after the point. The result is
  the exact value of the literal.
\<close>

definition parse_unsigned_decimal :: "string \<Rightarrow> rat option" where
  "parse_unsigned_decimal s =
     (let ip = takeWhile is_digit s;
          r1 = dropWhile is_digit s;
          has_dot = (case r1 of [] \<Rightarrow> False | c # _ \<Rightarrow> c = CHR ''.'');
          fp = (if has_dot then takeWhile is_digit (tl r1) else []);
          r2 = (if has_dot then dropWhile is_digit (tl r1) else r1)
      in if ip = [] \<and> fp = [] then None
         else (case parse_exponent r2 of
                 None \<Rightarrow> None
               | Some e \<Rightarrow> Some (of_int (digits_value 10 (ip @ fp)) * pow10 (e - int (length fp)))))"

definition str_unsigned :: "string \<Rightarrow> jsnum" where
  "str_unsigned s =
     (if s = ''Infinity'' then PInf
      else (case parse_unsigned_decimal s of None \<Rightarrow> NaN | Some q \<Rightarrow> rnd q))"

definition radix_literal :: "nat \<Rightarrow> string \<Rightarrow> jsnum" where
  "radix_literal radix s = (if all_digits radix s then rnd (of_int (digits_value radix s)) else NaN)"

text \<open>\<^verbatim>\<open>StringToNumber\<close>: what \<^verbatim>\<open>Number(s)\<close> returns for a string \<open>s\<close>.\<close>

definition string_to_number :: "string \<Rightarrow> jsnum" where
  "string_to_number str =
     (let s = trim str
      in if s = [] then Fin 0
         else if take 2 s = ''0x'' \<or> take 2 s = ''0X'' then radix_literal 16 (drop 2 s)
         else if take 2 s = ''0o'' \<or> take 2 s = ''0O'' then radix_literal 8 (drop 2 s)
         else if take 2 s = ''0b'' \<or> take 2 s = ''0B'' then radix_literal 2 (drop 2 s)
         else if hd s = CHR ''+'' then str_unsigned (tl s)
         else if hd s = CHR ''-'' then num_neg (str_unsigned (tl s))
         else str_unsigned s)"

subsubsection \<open>Writing a Number as a string\<close>

text \<open>The decimal digits of a natural number, most significant first.\<close>

function dec_digits :: "int \<Rightarrow> string" where
  "dec_digits n =
     (if n < 10 then [char_of (48 + n)]
      else dec_digits (n div 10) @ [char_of (48 + n mod 10)])"
  by pat_completeness auto
termination
  by (relation "measure nat") auto

declare dec_digits.simps [simp del]

text \<open>\<open>flog10 x\<close> is \<open>\<lfloor>log\<^sub>1\<^sub>0 x\<rfloor>\<close> for a positive double \<open>x\<close>: an estimate from
  \<open>flog2\<close> that is at most three too small, then corrected.\<close>

definition flog10_step :: "rat \<Rightarrow> int \<Rightarrow> int" where
  "flog10_step x n = (if pow10 (n + 1) \<le> x then n + 1 else n)"

definition flog10 :: "rat \<Rightarrow> int" where
  "flog10 x =
     flog10_step x (flog10_step x (flog10_step x ((flog2 x * 30103) div 100000 - 1)))"

text \<open>
  The \<open>k\<close>-digit decimals next to \<open>x\<close>, where \<open>10\<^sup>n\<^sup>-\<^sup>1 \<le> x < 10\<^sup>n\<close>: the one below and the
  one above. A candidate is accepted when it rounds to \<open>x\<close>; of two accepted ones the
  nearer is taken, the even one at a tie. The result is the digits \<open>s\<close> and the exponent
  \<open>n\<close> of \<open>s \<times> 10\<^sup>n\<^sup>-\<^sup>k\<close>.
\<close>

definition digits_pick ::
  "int \<Rightarrow> nat \<Rightarrow> int \<Rightarrow> bool \<Rightarrow> bool \<Rightarrow> rat \<Rightarrow> rat \<Rightarrow> (int \<times> int) option" where
  "digits_pick n k lo ok_lo ok_hi dl dh =
     (if ok_hi \<and> (\<not> ok_lo \<or> dh < dl \<or> (dh = dl \<and> even (lo + 1)))
      then (if lo + 1 = 10 ^ k then Some (10 ^ (k - 1), n + 1) else Some (lo + 1, n))
      else if ok_lo then Some (lo, n)
      else None)"

definition digits_between :: "rat \<Rightarrow> int \<Rightarrow> nat \<Rightarrow> rat \<Rightarrow> int \<Rightarrow> (int \<times> int) option" where
  "digits_between x n k sc lo =
     digits_pick n k lo
       (rnd (of_int lo * sc) = Fin x) (rnd (of_int (lo + 1) * sc) = Fin x)
       (x - of_int lo * sc) (of_int (lo + 1) * sc - x)"

definition digits_scaled :: "rat \<Rightarrow> int \<Rightarrow> nat \<Rightarrow> rat \<Rightarrow> (int \<times> int) option" where
  "digits_scaled x n k sc = digits_between x n k sc \<lfloor>x / sc\<rfloor>"

definition digits_cand :: "rat \<Rightarrow> int \<Rightarrow> nat \<Rightarrow> (int \<times> int) option" where
  "digits_cand x n k = digits_scaled x n k (pow10 (n - int k))"

text \<open>The shortest digits that read back as \<open>x\<close>; seventeen always suffice for a double.\<close>

function digits_search :: "rat \<Rightarrow> int \<Rightarrow> nat \<Rightarrow> int \<times> int" where
  "digits_search x n k =
     (if 17 < k then (\<lfloor>x / pow10 (n - 17)\<rfloor>, n)
      else (case digits_cand x n k of
              Some r \<Rightarrow> r
            | None \<Rightarrow> digits_search x n (Suc k)))"
  by pat_completeness auto
termination
  by (relation "measure (\<lambda>(x, n, k). 18 - k)") auto

declare digits_search.simps [simp del]

definition shortest_digits :: "rat \<Rightarrow> int \<times> int" where
  "shortest_digits x = digits_search x (flog10 x + 1) 1"

text \<open>\<^verbatim>\<open>Number::toString\<close> in radix 10, for a positive finite Number.\<close>

definition exponent_part :: "int \<Rightarrow> string" where
  "exponent_part e = ''e'' @ (if e < 0 then ''-'' else ''+'') @ dec_digits \<bar>e\<bar>"

text \<open>
  The four layouts of \<^verbatim>\<open>Number::toString\<close> for the digits \<open>ds\<close> and the exponent \<open>n\<close>:
  an integer, a decimal point inside the digits, a small fraction, and the exponential
  form.
\<close>

definition layout :: "string \<Rightarrow> int \<Rightarrow> string" where
  "layout ds n =
     (if int (length ds) \<le> n \<and> n \<le> 21
      then ds @ replicate (nat (n - int (length ds))) (CHR ''0'')
      else if 0 < n \<and> n \<le> 21 then take (nat n) ds @ ''.'' @ drop (nat n) ds
      else if - 6 < n \<and> n \<le> 0 then ''0.'' @ replicate (nat (- n)) (CHR ''0'') @ ds
      else if length ds = 1 then ds @ exponent_part (n - 1)
      else take 1 ds @ ''.'' @ drop 1 ds @ exponent_part (n - 1))"

definition pos_toString :: "rat \<Rightarrow> string" where
  "pos_toString x = (case shortest_digits x of (s, n) \<Rightarrow> layout (dec_digits s) n)"

text \<open>\<^verbatim>\<open>Number.prototype.toString()\<close>\<close>

definition num_toString :: "jsnum \<Rightarrow> string" where
  "num_toString a =
     (case a of
        NaN \<Rightarrow> ''NaN''
      | PInf \<Rightarrow> ''Infinity''
      | NInf \<Rightarrow> ''-Infinity''
      | Fin x \<Rightarrow> if x = 0 then ''0'' else if x < 0 then ''-'' @ pos_toString (- x) else pos_toString x)"

subsection \<open>JSON values and their conversions\<close>

text \<open>
  A parsed JSON value. \<open>JUndefined\<close> is what reading a missing property gives; it does
  not occur inside a parsed body. \<open>JObj\<close> lists the own properties of an object, each
  name once.
\<close>

datatype jsval =
    JUndefined
  | JNull
  | JBool bool
  | JNum jsnum
  | JStr string
  | JArr "jsval list"
  | JObj "(string \<times> jsval) list"

text \<open>Exceptions that no handler catches; the framework answers them with status 500.\<close>

datatype exn = SyntaxError | TypeError | NoObjectGenerated | DbError

text \<open>\<^verbatim>\<open>body?.key\<close>: only an object has the properties the handlers read.\<close>

definition get_prop :: "jsval \<Rightarrow> string \<Rightarrow> jsval" where
  "get_prop body k =
     (case body of
        JObj kvs \<Rightarrow> (case map_of kvs k of Some v \<Rightarrow> v | None \<Rightarrow> JUndefined)
      | _ \<Rightarrow> JUndefined)"

definition nullish :: "jsval \<Rightarrow> bool" where
  "nullish v = (v = JUndefined \<or> v = JNull)"

definition truthy :: "jsval \<Rightarrow> bool" where
  "truthy v =
     (case v of
        JUndefined \<Rightarrow> False
      | JNull \<Rightarrow> False
      | JBool b \<Rightarrow> b
      | JNum n \<Rightarrow> num_truthy n
      | JStr s \<Rightarrow> s \<noteq> []
      | JArr _ \<Rightarrow> True
      | JObj _ \<Rightarrow> True)"

text \<open>\<^verbatim>\<open>Array.prototype.join\<close> on converted elements: the first exception wins.\<close>

fun join_results :: "(exn + string) list \<Rightarrow> exn + string" where
  "join_results [] = Inr []"
| "join_results [r] = r"
| "join_results (r # rs) =
     (case r of
        Inl e \<Rightarrow> Inl e
      | Inr s \<Rightarrow> (case join_results rs of Inl e \<Rightarrow> Inl e | Inr t \<Rightarrow> Inr (s @ '','' @ t)))"

text \<open>
  \<^verbatim>\<open>v.toString()\<close> and \<^verbatim>\<open>ToString(v)\<close>. An array joins its elements with commas,
  \<^verbatim>\<open>null\<close> elements as the empty string. A plain object gives
  \<^verbatim>\<open>[object Object]\<close>, unless it has an own property \<^verbatim>\<open>toString\<close>: a JSON value
  is never callable, so the conversion throws a \<^verbatim>\<open>TypeError\<close>.
\<close>

fun js_toString :: "jsval \<Rightarrow> exn + string" where
  "js_toString JUndefined = Inr ''undefined''"
| "js_toString JNull = Inr ''null''"
| "js_toString (JBool b) = Inr (if b then ''true'' else ''false'')"
| "js_toString (JNum n) = Inr (num_toString n)"
| "js_toString (JStr s) = Inr s"
| "js_toString (JArr xs) =
     join_results (map (\<lambda>x. if x = JNull \<or> x = JUndefined then Inr [] else js_toString x) xs)"
| "js_toString (JObj kvs) =
     (if ''toString'' \<in> fst ` set kvs then Inl TypeError else Inr ''[object Object]'')"

text \<open>\<^verbatim>\<open>Number(v)\<close>: an object or array is converted to a string first.\<close>

definition toNumber :: "jsval \<Rightarrow> exn + jsnum" where
  "toNumber v =
     (case v of
        JUndefined \<Rightarrow> Inr NaN
      | JNull \<Rightarrow> Inr (Fin 0)
      | JBool b \<Rightarrow> Inr (Fin (if b then 1 else 0))
      | JNum n \<Rightarrow> Inr n
      | JStr s \<Rightarrow> Inr (string_to_number s)
      | _ \<Rightarrow> (case js_toString v of Inl e \<Rightarrow> Inl e | Inr s \<Rightarrow> Inr (string_to_number s)))"

subsection \<open>Dates\<close>

text \<open>
  A \<^verbatim>\<open>Date\<close> is its time value, milliseconds since the epoch, or \<open>None\<close> for an
  invalid date.
\<close>

type_synonym date = "int option"

text \<open>\<^verbatim>\<open>ToIntegerOrInfinity\<close> on a finite Number: truncation toward zero.\<close>

definition to_integer :: "rat \<Rightarrow> int" where
  "to_integer x = (if 0 \<le> x then \<lfloor>x\<rfloor> else \<lceil>x\<rceil>)"

text \<open>\<^verbatim>\<open>TimeClip\<close>, which is also \<^verbatim>\<open>new Date(n)\<close> for a Number \<open>n\<close>.\<close>

definition time_clip :: "jsnum \<Rightarrow> date" where
  "time_clip n =
     (case n of
        Fin x \<Rightarrow> if 8640000000000000 < \<bar>x\<bar> then None else Some (to_integer x)
      | _ \<Rightarrow> None)"

definition date_value :: "date \<Rightarrow> jsnum" where
  "date_value d = (case d of None \<Rightarrow> NaN | Some t \<Rightarrow> Fin (of_int t))"

definition is_leap :: "int \<Rightarrow> bool" where
  "is_leap y = (y mod 4 = 0 \<and> (y mod 100 \<noteq> 0 \<or> y mod 400 = 0))"

text \<open>\<^verbatim>\<open>DayFromYear\<close>: the day number of the first day of year \<open>y\<close>.\<close>

definition day_from_year :: "int \<Rightarrow> int" where
  "day_from_year y =
     365 * (y - 1970) + (y - 1969) div 4 - (y - 1901) div 100 + (y - 1601) div 400"

text \<open>The day within the year of the first day of month \<open>mn\<close> (0 to 11).\<close>

definition month_start :: "bool \<Rightarrow> int \<Rightarrow> int" where
  "month_start leap mn =
     [0, 31, 59, 90, 120, 151, 181, 212, 243, 273, 304, 334] ! nat mn
       + (if leap \<and> 2 \<le> mn then 1 else 0)"

text \<open>
  \<^verbatim>\<open>MakeDay\<close>: \<open>None\<close> stands for \<^verbatim>\<open>NaN\<close>, returned for an argument that is not
  finite and when the first day of the month is outside the range of time values.
\<close>

definition month_day :: "int \<Rightarrow> int \<Rightarrow> int" where
  "month_day ym mn = day_from_year ym + month_start (is_leap ym) mn"

definition day_in_month :: "int \<Rightarrow> int \<Rightarrow> int option" where
  "day_in_month d0 dt =
     (if 8640000000000000 < \<bar>d0 * 86400000\<bar> then None else Some (d0 + dt - 1))"

definition make_day :: "jsnum \<Rightarrow> jsnum \<Rightarrow> jsnum \<Rightarrow> int option" where
  "make_day year month dt =
     (case (year, month, dt) of
        (Fin y, Fin m, Fin d) \<Rightarrow>
          day_in_month (month_day (to_integer y + to_integer m div 12) (to_integer m mod 12))
            (to_integer d)
      | _ \<Rightarrow> None)"

text \<open>
  \<^verbatim>\<open>Date.UTC(year, month, day, 0, 0, 0, 0)\<close>. A year from 0 to 99 stands for 1900 to
  1999.
\<close>

definition full_year :: "jsnum \<Rightarrow> jsnum" where
  "full_year year =
     (case year of
        Fin y \<Rightarrow>
          if 0 \<le> to_integer y \<and> to_integer y \<le> 99 then Fin (of_int (1900 + to_integer y))
          else year
      | _ \<Rightarrow> year)"

definition date_UTC :: "jsnum \<Rightarrow> jsnum \<Rightarrow> jsnum \<Rightarrow> jsnum" where
  "date_UTC year month dt =
     (case make_day (full_year year) month dt of
        None \<Rightarrow> NaN
      | Some d \<Rightarrow> date_value (time_clip (Fin (of_int (d * 86400000)))))"

section \<open>The transaction table\<close>

text \<open>
  A row of the \<^verbatim>\<open>transaction\<close> table of \<^verbatim>\<open>db/schema.ts\<close>. The three timestamp
  columns are integers in \<^verbatim>\<open>timestamp\<close> mode: whole seconds since the epoch. The
  nullable columns \<^verbatim>\<open>category\<close> and \<^verbatim>\<open>note\<close> hold \<open>None\<close> for \<^verbatim>\<open>NULL\<close>.
  The table is the list of its rows, in insertion order.
\<close>

record row =
  tx_id :: string
  userId :: string
  title :: string
  amount :: string
  currency :: string
  tx_type :: string
  category :: "string option"
  "note" :: "string option"
  occurredAt :: int
  createdAt :: int
  updatedAt :: int

text \<open>
  What a timestamp column stores for a \<^verbatim>\<open>Date\<close>: \<^verbatim>\<open>Math.floor(getTime() / 1000)\<close>.
  An invalid date gives not-a-number, which reaches the database as \<^verbatim>\<open>NULL\<close>
  (\<open>None\<close>).
\<close>

definition to_driver :: "date \<Rightarrow> int option" where
  "to_driver d = (case d of None \<Rightarrow> None | Some ms \<Rightarrow> Some (ms div 1000))"

text \<open>
  \<^verbatim>\<open>insert(transaction).values(r)\<close>: \<^verbatim>\<open>id\<close> is the primary key, and every
  timestamp column is \<^verbatim>\<open>NOT NULL\<close>.
\<close>

definition insert_row :: "row \<Rightarrow> row list \<Rightarrow> exn + row list" where
  "insert_row r db = (if tx_id r \<in> tx_id ` set db then Inl DbError else Inr (db @ [r]))"

text \<open>The condition \<^verbatim>\<open>and(eq(transaction.id, id), eq(transaction.userId, uid))\<close>.\<close>

definition owned_by :: "string \<Rightarrow> string \<Rightarrow> row \<Rightarrow> bool" where
  "owned_by i uid r = (tx_id r = i \<and> userId r = uid)"


text \<open>
  The columns an update assigns. \<open>set_occurredAt\<close> is \<open>None\<close> when the column is left
  out of the statement, \<open>Some None\<close> for an invalid date and \<open>Some (Some s)\<close> for
  \<open>s\<close> seconds.
\<close>

record update_set =
  set_title :: string
  set_amount :: string
  set_currency :: string
  set_type :: string
  set_category :: "string option"
  set_note :: "string option"
  set_occurredAt :: "int option option"

definition apply_set :: "update_set \<Rightarrow> row \<Rightarrow> row" where
  "apply_set u r =
     r\<lparr>title := set_title u,
       amount := set_amount u,
       currency := set_currency u,
       tx_type := set_type u,
       category := set_category u,
       note := set_note u,
       occurredAt := (case set_occurredAt u of Some (Some s) \<Rightarrow> s | _ \<Rightarrow> occurredAt r)\<rparr>"

text \<open>
  \<^verbatim>\<open>update(transaction).set(u).where(...).returning()\<close>: the updated rows and the new
  table. Assigning \<^verbatim>\<open>NULL\<close> to \<^verbatim>\<open>occurred_at\<close> violates \<^verbatim>\<open>NOT NULL\<close> as soon as
  a row matches.
\<close>

definition update_rows ::
  "update_set \<Rightarrow> string \<Rightarrow> string \<Rightarrow> row list \<Rightarrow> exn + row list \<times> row list" where
  "update_rows u i uid db =
     (if set_occurredAt u = Some None \<and> filter (owned_by i uid) db \<noteq> [] then Inl DbError
      else Inr (map (apply_set u) (filter (owned_by i uid) db),
                map (\<lambda>r. if owned_by i uid r then apply_set u r else r) db))"

text \<open>
  The filters of the list query: the caller's rows and, when a day is given,
  \<^verbatim>\<open>gte(occurredAt, dayStart)\<close> and \<^verbatim>\<open>lt(occurredAt, dayEnd)\<close>. A comparison with
  \<^verbatim>\<open>NULL\<close> selects nothing.
\<close>

definition in_range :: "(date \<times> date) option \<Rightarrow> row \<Rightarrow> bool" where
  "in_range rng r =
     (case rng of
        None \<Rightarrow> True
      | Some (dayStart, dayEnd) \<Rightarrow>
          (case (to_driver dayStart, to_driver dayEnd) of
             (Some lo, Some hi) \<Rightarrow> lo \<le> occurredAt r \<and> occurredAt r < hi
           | _ \<Rightarrow> False))"

text \<open>
  \<^verbatim>\<open>select().from(transaction).where(and(...filters)).orderBy(desc(occurredAt)).limit(50)\<close>.
  Rows with equal \<^verbatim>\<open>occurredAt\<close> keep their table order.
\<close>

definition select_rows :: "string \<Rightarrow> (date \<times> date) option \<Rightarrow> row list \<Rightarrow> row list" where
  "select_rows uid rng db =
     take 50 (sort_key (\<lambda>r. - occurredAt r) (filter (\<lambda>r. userId r = uid \<and> in_range rng r) db))"

section \<open>The request handlers\<close>

text \<open>
  What the handlers take from outside: the clock (\<open>clock k\<close> is the \<open>k\<close>-th reading of
  \<^verbatim>\<open>new Date()\<close> in a request, in milliseconds), \<^verbatim>\<open>crypto.randomUUID()\<close>, the
  answer of the generation service to a prompt (\<open>None\<close> when it produces no object),
  \<^verbatim>\<open>Date.parse\<close>, whose formats are implementation-defined, and what the driver stores
  in a text column for a bound value that is not a string (or its refusal).
\<close>

record prompt =
  preferredCurrency :: string
  todayISO :: int
  user_text :: string

record env =
  clock :: "nat \<Rightarrow> int"
  randomUUID :: string
  generate :: "prompt \<Rightarrow> jsval option"
  date_parse :: "string \<Rightarrow> date"
  bind_other :: "jsval \<Rightarrow> exn + string"

text \<open>The object the generation service is asked for, after validation by the schema.\<close>

record extraction =
  ex_title :: string
  ex_amount :: jsnum
  ex_currency :: string
  ex_type :: string
  ex_category :: string
  ex_note :: "string option"
  ex_occurredAt :: "string option"

text \<open>The responses: \<^verbatim>\<open>c.json(...)\<close> with its status, or an uncaught exception.\<close>

datatype response =
    ErrorJson string nat
  | Uncaught exn
  | CreatedJson extraction row
  | TransactionsJson "row list"
  | SuccessJson
  | TransactionJson row

definition status :: "response \<Rightarrow> nat" where
  "status r = (case r of ErrorJson _ st \<Rightarrow> st | Uncaught _ \<Rightarrow> 500 | _ \<Rightarrow> 200)"

subsection \<open>\<^verbatim>\<open>POST /ai\<close>\<close>

text \<open>\<^verbatim>\<open>z.string().optional()\<close>\<close>

definition optional_string :: "jsval \<Rightarrow> string option option" where
  "optional_string v = (case v of JUndefined \<Rightarrow> Some None | JStr s \<Rightarrow> Some (Some s) | _ \<Rightarrow> None)"

text \<open>
  The schema of the handler:
  \<^verbatim>\<open>title: z.string().min(1)\<close>, \<^verbatim>\<open>amount: z.number()\<close>,
  \<^verbatim>\<open>currency: z.string().min(3).max(3).default("USD")\<close>,
  \<^verbatim>\<open>type: z.enum(["income", "expense"])\<close>, \<^verbatim>\<open>category: z.string()\<close>,
  \<^verbatim>\<open>note\<close> and \<^verbatim>\<open>occurredAt\<close> optional strings. \<open>None\<close> when the value does not
  conform.
\<close>

definition schema_parse :: "jsval \<Rightarrow> extraction option" where
  "schema_parse v =
     (case v of
        JObj kvs \<Rightarrow>
          (case (get_prop v ''title'', get_prop v ''amount'', get_prop v ''type'',
                 get_prop v ''category'') of
             (JStr t, JNum a, JStr ty, JStr cat) \<Rightarrow>
               (let cur = (case get_prop v ''currency'' of
                             JUndefined \<Rightarrow> Some ''USD''
                           | JStr c \<Rightarrow> if length c = 3 then Some c else None
                           | _ \<Rightarrow> None)
                in case (cur, optional_string (get_prop v ''note''),
                         optional_string (get_prop v ''occurredAt'')) of
                     (Some c, Some n, Some oc) \<Rightarrow>
                       if 1 \<le> length t \<and> a \<noteq> NaN \<and> (ty = ''income'' \<or> ty = ''expense'')
                       then Some \<lparr>ex_title = t, ex_amount = a, ex_currency = c, ex_type = ty,
                                  ex_category = cat, ex_note = n, ex_occurredAt = oc\<rparr>
                       else None
                   | _ \<Rightarrow> None)
           | _ \<Rightarrow> None)
      | _ \<Rightarrow> None)"

text \<open>\<^verbatim>\<open>generateObject\<close>: the answer of the service, validated; it throws otherwise.\<close>

definition generateObject :: "env \<Rightarrow> prompt \<Rightarrow> exn + extraction" where
  "generateObject e p =
     (case generate e p of
        None \<Rightarrow> Inl NoObjectGenerated
      | Some v \<Rightarrow> (case schema_parse v of None \<Rightarrow> Inl NoObjectGenerated | Some ob \<Rightarrow> Inr ob))"

text \<open>\<^verbatim>\<open>(v ?? d).toString().trim()\<close>\<close>

definition text_or :: "string \<Rightarrow> jsval \<Rightarrow> exn + string" where
  "text_or d v =
     (case js_toString (if nullish v then JStr d else v) of
        Inl e \<Rightarrow> Inl e
      | Inr s \<Rightarrow> Inr (trim s))"

text \<open>
  The insert of the handler. \<^verbatim>\<open>occurredAt\<close> is the date of the extracted string when
  there is a non-empty one, the clock otherwise; \<^verbatim>\<open>createdAt\<close> and \<^verbatim>\<open>updatedAt\<close>
  are filled by the column defaults of the schema, which read the clock next.
\<close>

definition new_row :: "env \<Rightarrow> string \<Rightarrow> extraction \<Rightarrow> exn + row" where
  "new_row e uid ob =
     (let given = (case ex_occurredAt ob of Some s \<Rightarrow> s \<noteq> [] | None \<Rightarrow> False);
          occ = (case ex_occurredAt ob of
                   Some s \<Rightarrow> if s \<noteq> [] then date_parse e s else Some (clock e 1)
                 | None \<Rightarrow> Some (clock e 1));
          k = (if given then 1 else 2)
      in case to_driver occ of
           None \<Rightarrow> Inl DbError
         | Some s \<Rightarrow>
             Inr \<lparr>tx_id = randomUUID e,
                  userId = uid,
                  title = ex_title ob,
                  amount = num_toString (ex_amount ob),
                  currency = ex_currency ob,
                  tx_type = ex_type ob,
                  category = Some (ex_category ob),
                  note = ex_note ob,
                  occurredAt = s,
                  createdAt = clock e k div 1000,
                  updatedAt = clock e (Suc k) div 1000\<rparr>)"

text \<open>
  The handler. \<open>user\<close> is what the session lookup found, \<open>body\<close> the parsed JSON body
  (\<open>None\<close> when the body is not JSON: \<^verbatim>\<open>c.req.json()\<close> throws). \<open>ai_request\<close> is
  the handler up to the call of \<^verbatim>\<open>generateObject\<close>: the response it returns early,
  or the caller and the prompt.
\<close>

definition ai_request ::
  "env \<Rightarrow> string option \<Rightarrow> jsval option \<Rightarrow> response + string \<times> prompt" where
  "ai_request e user body =
     (case user of
        None \<Rightarrow> Inl (ErrorJson ''Unauthorized'' 401)
      | Some uid \<Rightarrow>
          (case body of
             None \<Rightarrow> Inl (Uncaught SyntaxError)
           | Some b \<Rightarrow>
               (case text_or [] (get_prop b ''text'') of
                  Inl x \<Rightarrow> Inl (Uncaught x)
                | Inr txt \<Rightarrow>
                    (case text_or ''USD'' (get_prop b ''currency'') of
                       Inl x \<Rightarrow> Inl (Uncaught x)
                     | Inr cur \<Rightarrow>
                         if txt = [] then Inl (ErrorJson ''Missing text'' 400)
                         else Inr (uid, \<lparr>preferredCurrency = toUpperCase cur,
                                         todayISO = clock e 0, user_text = txt\<rparr>)))))"

definition post_ai ::
  "env \<Rightarrow> string option \<Rightarrow> jsval option \<Rightarrow> row list \<Rightarrow> response \<times> row list" where
  "post_ai e user body db =
     (case ai_request e user body of
        Inl resp \<Rightarrow> (resp, db)
      | Inr (uid, p) \<Rightarrow>
          (case generateObject e p of
             Inl x \<Rightarrow> (Uncaught x, db)
           | Inr ob \<Rightarrow>
               (case new_row e uid ob of
                  Inl x \<Rightarrow> (Uncaught x, db)
                | Inr r \<Rightarrow>
                    (case insert_row r db of
                       Inl x \<Rightarrow> (Uncaught x, db)
                     | Inr db' \<Rightarrow> (CreatedJson ob r, db')))))"

subsection \<open>\<^verbatim>\<open>GET /transactions\<close>\<close>

text \<open>
  The day of the query: \<open>Inr None\<close> without a \<^verbatim>\<open>date\<close> parameter, the two bounds
  \<^verbatim>\<open>dayStart\<close> and \<^verbatim>\<open>dayEnd\<close> with one, or the 400 response. A part that the
  destructuring does not find is \<^verbatim>\<open>undefined\<close> (\<open>None\<close>), as is a missing
  \<^verbatim>\<open>tzOffset\<close> parameter, whose Number is not-a-number.
\<close>

definition nth_part :: "jsnum list \<Rightarrow> nat \<Rightarrow> jsnum option" where
  "nth_part ps k = (if k < length ps then Some (ps ! k) else None)"

definition falsy_part :: "jsnum option \<Rightarrow> bool" where
  "falsy_part p = (case p of None \<Rightarrow> True | Some n \<Rightarrow> \<not> num_truthy n)"

definition nan_part :: "jsnum option \<Rightarrow> bool" where
  "nan_part p = (case p of None \<Rightarrow> False | Some n \<Rightarrow> isNaN n)"

text \<open>The two bounds for the start of the day \<^verbatim>\<open>utcStart\<close>.\<close>

definition day_bounds :: "jsnum \<Rightarrow> date \<times> date" where
  "day_bounds utcStart =
     (time_clip utcStart, time_clip (num_add utcStart (Fin (24 * 60 * 60 * 1000))))"

definition range_of ::
  "jsnum option \<Rightarrow> jsnum option \<Rightarrow> jsnum option \<Rightarrow> jsnum \<Rightarrow> response + (date \<times> date) option" where
  "range_of year month day tzOffset =
     (if falsy_part year \<or> falsy_part month \<or> falsy_part day \<or>
         nan_part year \<or> nan_part month \<or> nan_part day \<or> isNaN tzOffset
      then Inl (ErrorJson ''Invalid date or tzOffset'' 400)
      else
        (case (year, month, day) of
           (Some y, Some m, Some d) \<Rightarrow>
             Inr (Some (day_bounds
                          (num_add (date_UTC y (num_sub m (Fin 1)) d)
                             (num_mul tzOffset (Fin 60000)))))
         | _ \<Rightarrow> Inl (ErrorJson ''Invalid date or tzOffset'' 400)))"

definition range_of_parts :: "jsnum list \<Rightarrow> jsnum \<Rightarrow> response + (date \<times> date) option" where
  "range_of_parts ps tzOffset = range_of (nth_part ps 0) (nth_part ps 1) (nth_part ps 2) tzOffset"

definition day_range ::
  "string option \<Rightarrow> string option \<Rightarrow> response + (date \<times> date) option" where
  "day_range dateParam tzOffsetParam =
     (case dateParam of
        None \<Rightarrow> Inr None
      | Some ds \<Rightarrow>
          if ds = [] then Inr None
          else range_of_parts (map string_to_number (split_on (CHR ''-'') ds))
                 (case tzOffsetParam of None \<Rightarrow> NaN | Some ts \<Rightarrow> string_to_number ts))"

definition get_transactions ::
  "string option \<Rightarrow> string option \<Rightarrow> string option \<Rightarrow> row list \<Rightarrow> response" where
  "get_transactions user dateParam tzOffsetParam db =
     (case user of
        None \<Rightarrow> ErrorJson ''Unauthorized'' 401
      | Some uid \<Rightarrow>
          (case day_range dateParam tzOffsetParam of
             Inl resp \<Rightarrow> resp
           | Inr rng \<Rightarrow> TransactionsJson (select_rows uid rng db)))"

subsection \<open>\<^verbatim>\<open>DELETE /transactions/:id\<close>\<close>


subsection \<open>\<^verbatim>\<open>PUT /transactions/:id\<close>\<close>

text \<open>
  The payload the handler builds from the body. An \<^verbatim>\<open>undefined\<close> title or currency
  is \<open>None\<close>; \<open>None\<close> is \<^verbatim>\<open>null\<close> for category, note and \<^verbatim>\<open>occurredAt\<close>. The
  amount and the type are taken from the body as they are.
\<close>

record payload =
  p_title :: "string option"
  p_amount :: jsval
  p_currency :: "string option"
  p_type :: jsval
  p_category :: "string option"
  p_note :: "string option"
  p_occurredAt :: "date option"

text \<open>\<^verbatim>\<open>v?.toString().trim()\<close>\<close>

definition opt_trim :: "jsval \<Rightarrow> exn + string option" where
  "opt_trim v =
     (if nullish v then Inr None
      else (case js_toString v of Inl x \<Rightarrow> Inl x | Inr s \<Rightarrow> Inr (Some (trim s))))"

text \<open>\<^verbatim>\<open>s || null\<close>\<close>

definition or_null :: "string option \<Rightarrow> string option" where
  "or_null s = (if s = Some [] then None else s)"

text \<open>
  \<^verbatim>\<open>new Date(v)\<close>: a string is parsed, an array or object is converted to a string
  and parsed, any other value is converted to a Number.
\<close>

definition new_Date :: "env \<Rightarrow> jsval \<Rightarrow> exn + date" where
  "new_Date e v =
     (case v of
        JStr s \<Rightarrow> Inr (date_parse e s)
      | JArr _ \<Rightarrow> (case js_toString v of Inl x \<Rightarrow> Inl x | Inr s \<Rightarrow> Inr (date_parse e s))
      | JObj _ \<Rightarrow> (case js_toString v of Inl x \<Rightarrow> Inl x | Inr s \<Rightarrow> Inr (date_parse e s))
      | _ \<Rightarrow> (case toNumber v of Inl x \<Rightarrow> Inl x | Inr n \<Rightarrow> Inr (time_clip n)))"

definition build_payload :: "env \<Rightarrow> jsval \<Rightarrow> exn + payload" where
  "build_payload e body =
     (case opt_trim (get_prop body ''title'') of
        Inl x \<Rightarrow> Inl x
      | Inr t \<Rightarrow>
     (case opt_trim (get_prop body ''currency'') of
        Inl x \<Rightarrow> Inl x
      | Inr c \<Rightarrow>
     (case opt_trim (get_prop body ''category'') of
        Inl x \<Rightarrow> Inl x
      | Inr cat \<Rightarrow>
     (case opt_trim (get_prop body ''note'') of
        Inl x \<Rightarrow> Inl x
      | Inr n \<Rightarrow>
     (case (if truthy (get_prop body ''occurredAt'')
            then (case new_Date e (get_prop body ''occurredAt'') of
                    Inl x \<Rightarrow> Inl x
                  | Inr d \<Rightarrow> Inr (Some d))
            else Inr None) of
        Inl x \<Rightarrow> Inl x
      | Inr oc \<Rightarrow>
          Inr \<lparr>p_title = t,
               p_amount = get_prop body ''amount'',
               p_currency = map_option toUpperCase c,
               p_type = get_prop body ''type'',
               p_category = or_null cat,
               p_note = or_null n,
               p_occurredAt = oc\<rparr>)))))"

text \<open>The check that answers \<^verbatim>\<open>Invalid payload\<close>.\<close>

definition invalid_payload :: "payload \<Rightarrow> bool" where
  "invalid_payload p =
     (p_title p = None \<or> p_title p = Some [] \<or>
      p_amount p = JUndefined \<or>
      p_currency p = None \<or> p_currency p = Some [] \<or>
      \<not> truthy (p_type p))"

text \<open>A string is bound to a text column as it is; the driver decides on other values.\<close>

definition bind_text :: "env \<Rightarrow> jsval \<Rightarrow> exn + string" where
  "bind_text e v = (case v of JStr s \<Rightarrow> Inr s | _ \<Rightarrow> bind_other e v)"

text \<open>
  The argument of \<^verbatim>\<open>set\<close>, for a payload that passed the check. \<^verbatim>\<open>occurredAt\<close> is
  \<^verbatim>\<open>payload.occurredAt ?? undefined\<close>: a \<^verbatim>\<open>null\<close> leaves the column out.
\<close>

definition build_set :: "env \<Rightarrow> payload \<Rightarrow> exn + update_set" where
  "build_set e p =
     (case toNumber (p_amount p) of
        Inl x \<Rightarrow> Inl x
      | Inr n \<Rightarrow>
          (case bind_text e (p_type p) of
             Inl x \<Rightarrow> Inl x
           | Inr ty \<Rightarrow>
               Inr \<lparr>set_title = (case p_title p of Some t \<Rightarrow> t | None \<Rightarrow> []),
                    set_amount = num_toString n,
                    set_currency = (case p_currency p of Some c \<Rightarrow> c | None \<Rightarrow> []),
                    set_type = ty,
                    set_category = p_category p,
                    set_note = p_note p,
                    set_occurredAt = map_option to_driver (p_occurredAt p)\<rparr>))"

text \<open>
  Everything the handler does before it reaches the table: the response it returns
  early, or the assignments of the update.
\<close>

definition put_prepare ::
  "env \<Rightarrow> string option \<Rightarrow> string \<Rightarrow> jsval option \<Rightarrow> response + string \<times> update_set" where
  "put_prepare e user i body =
     (case user of
        None \<Rightarrow> Inl (ErrorJson ''Unauthorized'' 401)
      | Some uid \<Rightarrow>
          if i = [] then Inl (ErrorJson ''Missing id'' 400)
          else (case body of
                  None \<Rightarrow> Inl (Uncaught SyntaxError)
                | Some b \<Rightarrow>
                    (case build_payload e b of
                       Inl x \<Rightarrow> Inl (Uncaught x)
                     | Inr p \<Rightarrow>
                         if invalid_payload p then Inl (ErrorJson ''Invalid payload'' 400)
                         else (case build_set e p of
                                 Inl x \<Rightarrow> Inl (Uncaught x)
                               | Inr u \<Rightarrow> Inr (uid, u)))))"

definition put_transaction ::
  "env \<Rightarrow> string option \<Rightarrow> string \<Rightarrow> jsval option \<Rightarrow> row list \<Rightarrow> response \<times> row list" where
  "put_transaction e user i body db =
     (case put_prepare e user i body of
        Inl resp \<Rightarrow> (resp, db)
      | Inr (uid, u) \<Rightarrow>
          (case update_rows u i uid db of
             Inl x \<Rightarrow> (Uncaught x, db)
           | Inr ([], db') \<Rightarrow> (ErrorJson ''Not found'' 404, db')
           | Inr (updated # _, db') \<Rightarrow> (TransactionJson updated, db')))"

section \<open>Sample data\<close>

text \<open>
  An environment whose generation service produces nothing, one row owned by
  \<^verbatim>\<open>alice\<close>, and update bodies that are well formed but for their amount; the examples
  below are built from them.
\<close>

definition env0 :: env where
  "env0 = \<lparr>clock = (\<lambda>k. 1710050000123 + int k),
            randomUUID = ''t2'',
            generate = (\<lambda>p. None),
            date_parse = (\<lambda>s. None),
            bind_other = (\<lambda>v. Inl DbError)\<rparr>"

definition row0 :: row where
  "row0 = \<lparr>tx_id = ''t1'', userId = ''alice'', title = ''Chipotle'',
            amount = ''12.5'', currency = ''USD'', tx_type = ''expense'',
            category = Some ''food'', note = Some ''lunch'', occurredAt = 1710050000,
            createdAt = 1710050000, updatedAt = 1710050000\<rparr>"

definition body_with :: "jsval \<Rightarrow> jsval" where
  "body_with a = JObj [(''title'', JStr ''Burrito''), (''amount'', a),
                       (''currency'', JStr ''usd''), (''type'', JStr ''income'')]"

definition body0 :: jsval where
  "body0 = body_with (JNum (Fin 1))"

definition body_1250 :: jsval where
  "body_1250 = JObj [(''title'', JStr ''Chipotle''), (''amount'', JStr ''12.50''),
                     (''currency'', JStr ''USD''), (''type'', JStr ''expense'')]"

definition body_gift :: jsval where
  "body_gift = JObj [(''title'', JStr ''Burrito''), (''amount'', JNum (Fin 1)),
                     (''currency'', JStr ''usd''), (''type'', JStr ''gift'')]"


text \<open>
  A request to \<^verbatim>\<open>/ai\<close>, an answer of the generation service that conforms to the
  schema, an environment whose service gives that answer, and one whose clock is later.
\<close>

definition text_body :: jsval where
  "text_body = JObj [(''text'', JStr ''chipotle 12.50'')]"

definition blank_body :: jsval where
  "blank_body = JObj [(''text'', JStr ''  '')]"

definition odd_currency_body :: jsval where
  "odd_currency_body =
     JObj [(''text'', JStr ''  ''), (''currency'', JObj [(''toString'', JNull)])]"

definition answer0 :: jsval where
  "answer0 = JObj [(''title'', JStr ''Chipotle''), (''amount'', JNum (Fin (25 / 2))),
                   (''currency'', JStr ''USD''), (''type'', JStr ''expense''),
                   (''category'', JStr ''food'')]"

definition env_ai :: env where
  "env_ai = env0\<lparr>generate := (\<lambda>p. Some answer0)\<rparr>"


section \<open>The list, as the specification words it\<close>

text \<open>
  The caller's transactions whose \<^verbatim>\<open>occurredAt\<close> lies in the half-open interval from
  \<open>lo\<close> to \<open>hi\<close>, in seconds since the epoch.
\<close>

definition day_matches :: "string \<Rightarrow> int \<Rightarrow> int \<Rightarrow> row list \<Rightarrow> row list" where
  "day_matches u lo hi db =
     filter (\<lambda>t. userId t = u \<and> lo \<le> occurredAt t \<and> occurredAt t < hi) db"

text \<open>
  \<open>rows\<close> are the fifty most recent of \<open>ms\<close>, most recent first: all of \<open>ms\<close> when they
  are at most fifty, and otherwise fifty of them, none older than a row left out.
\<close>

definition most_recent_50 :: "row list \<Rightarrow> row list \<Rightarrow> bool" where
  "most_recent_50 rows ms =
     (mset rows \<subseteq># mset ms \<and>
      length rows = min 50 (length ms) \<and>
      sorted_wrt (\<lambda>a b. occurredAt b \<le> occurredAt a) rows \<and>
      (\<forall>t \<in># mset ms - mset rows. \<forall>r \<in> set rows. occurredAt t \<le> occurredAt r))"

section \<open>Calendar dates, as the specification words them\<close>

text \<open>
  The Gregorian calendar by counting: a year has 365 days, or 366 when it is divisible by
  4 and not by 100 unless by 400; UTC midnight of a date is the number of days from
  1970-01-01 to it, in milliseconds.
\<close>

definition leap_year :: "int \<Rightarrow> bool" where
  "leap_year y = (4 dvd y \<and> (\<not> 100 dvd y \<or> 400 dvd y))"

definition year_length :: "int \<Rightarrow> int" where
  "year_length y = (if leap_year y then 366 else 365)"

definition month_length :: "int \<Rightarrow> int \<Rightarrow> int" where
  "month_length y m =
     (if m = 2 then (if leap_year y then 29 else 28)
      else if m = 4 \<or> m = 6 \<or> m = 9 \<or> m = 11 then 30
      else 31)"

definition days_before_year :: "int \<Rightarrow> int" where
  "days_before_year y =
     (if 1970 \<le> y then sum_list (map year_length [1970..y - 1])
      else - sum_list (map year_length [y..1969]))"

definition days_before_month :: "int \<Rightarrow> int \<Rightarrow> int" where
  "days_before_month y m = sum_list (map (month_length y) [1..m - 1])"

definition utc_midnight :: "int \<Rightarrow> int \<Rightarrow> int \<Rightarrow> int" where
  "utc_midnight y m d = (days_before_year y + days_before_month y m + (d - 1)) * 86400000"

definition valid_date :: "int \<Rightarrow> int \<Rightarrow> int \<Rightarrow> bool" where
  "valid_date y m d = (1 \<le> m \<and> m \<le> 12 \<and> 1 \<le> d \<and> d \<le> month_length y m)"

text \<open>
  The query parameters: a date written \<^verbatim>\<open>YYYY-MM-DD\<close> with leading zeros, and an offset
  in signed decimal minutes.
\<close>

definition pad :: "nat \<Rightarrow> int \<Rightarrow> string" where
  "pad w n = replicate (w - length (dec_digits n)) (CHR ''0'') @ dec_digits n"

definition date_string :: "int \<Rightarrow> int \<Rightarrow> int \<Rightarrow> string" where
  "date_string y m d = pad 4 y @ ''-'' @ pad 2 m @ ''-'' @ pad 2 d"

definition int_string :: "int \<Rightarrow> string" where
  "int_string n = (if n < 0 then ''-'' @ dec_digits (- n) else dec_digits n)"

section \<open>Properties of the table operations\<close>







section \<open>Properties of the handlers\<close>

lemma put_prepare_user:
  "put_prepare e (Some u) i body = Inr (u', us) \<Longrightarrow> u' = u"
  by (auto simp: put_prepare_def split: if_splits option.splits sum.splits)

lemma put_prepare_not_success:
  "put_prepare e user i body = Inl resp \<Longrightarrow> resp \<noteq> TransactionJson r"
  by (auto simp: put_prepare_def split: if_splits option.splits sum.splits)




subsection \<open>Ownership\<close>




subsection \<open>The cap of the list\<close>

lemma most_recent_50_all:
  assumes "most_recent_50 rows ms" and "length ms \<le> 50"
  shows "mset rows = mset ms"
proof -
  from assms have "mset rows \<subseteq># mset ms" and "size (mset rows) = size (mset ms)"
    by (simp_all add: most_recent_50_def)
  then show ?thesis
    by (metis mset_subset_size subset_mset.less_le not_less_iff_gr_or_eq)
qed

lemma select_rows_most_recent:
  "most_recent_50 (select_rows u rng db) (filter (\<lambda>r. userId r = u \<and> in_range rng r) db)"
proof -
  define ms where "ms = filter (\<lambda>r. userId r = u \<and> in_range rng r) db"
  define xs where "xs = sort_key (\<lambda>r. - occurredAt r) ms"
  have rows: "select_rows u rng db = take 50 xs"
    by (simp add: select_rows_def xs_def ms_def)
  have split: "mset ms = mset (take 50 xs) + mset (drop 50 xs)"
    by (metis append_take_drop_id mset_append mset_sort xs_def)
  have sub: "mset (take 50 xs) \<subseteq># mset ms"
    by (simp add: split)
  have len: "length (take 50 xs) = min 50 (length ms)"
    by (simp add: xs_def min.commute)
  have srt: "sorted (map (\<lambda>r. - occurredAt r) (take 50 xs @ drop 50 xs))"
    by (simp add: xs_def)
  then have s1: "sorted_wrt (\<lambda>a b. occurredAt b \<le> occurredAt a) (take 50 xs)"
    by (simp add: sorted_append sorted_map del: append_take_drop_id)
  have rest: "mset ms - mset (take 50 xs) = mset (drop 50 xs)"
    by (simp add: split)
  have s2: "\<forall>t \<in># mset ms - mset (take 50 xs). \<forall>r \<in> set (take 50 xs). occurredAt t \<le> occurredAt r"
    using srt unfolding rest
    by (auto simp: sorted_append simp del: append_take_drop_id)
  from sub len s1 s2 show ?thesis
    unfolding rows ms_def [symmetric] most_recent_50_def by blast
qed

subsection \<open>The list of a day\<close>

lemma day_range_minus_300:
  "day_range (Some ''2024-03-10'') (Some ''-300'')
     = Inr (Some (Some 1710010800000, Some 1710097200000))"
  by code_simp

lemma day_range_plus_300:
  "day_range (Some ''2024-03-10'') (Some ''300'')
     = Inr (Some (Some 1710046800000, Some 1710133200000))"
  by code_simp

lemma in_range_seconds:
  "in_range (Some (Some (lo * 1000), Some (hi * 1000))) r
     = (lo \<le> occurredAt r \<and> occurredAt r < hi)"
  by (simp add: in_range_def to_driver_def)

lemma list_of_day:
  assumes "day_range dateParam tzOffsetParam = Inr (Some (Some (lo * 1000), Some (hi * 1000)))"
  shows "\<exists>rows. get_transactions (Some u) dateParam tzOffsetParam db = TransactionsJson rows
           \<and> most_recent_50 rows (day_matches u lo hi db)"
  using select_rows_most_recent [of u "Some (Some (lo * 1000), Some (hi * 1000))" db] assms
  by (simp add: get_transactions_def day_matches_def in_range_seconds)

text \<open>
  Claim C2, as amended. For \<^verbatim>\<open>date=2024-03-10\<close> and \<^verbatim>\<open>tzOffset=-300\<close> the handler
  returns the caller's transactions whose \<^verbatim>\<open>occurredAt\<close> lies in the half-open interval
  from 2024-03-09T19:00:00Z (1710010800) to 2024-03-10T19:00:00Z (1710097200): all of them
  when they are at most fifty, the fifty most recent otherwise. The interval from
  2024-03-10T05:00:00Z (1710046800) to 2024-03-11T05:00:00Z (1710133200) is the one of
  \<^verbatim>\<open>tzOffset=300\<close>: the offset is added to UTC midnight.
\<close>

theorem list_day_interval:
  "(\<exists>rows. get_transactions (Some u) (Some ''2024-03-10'') (Some ''-300'') db = TransactionsJson rows
       \<and> most_recent_50 rows (day_matches u 1710010800 1710097200 db))
   \<and> (\<exists>rows. get_transactions (Some u) (Some ''2024-03-10'') (Some ''300'') db = TransactionsJson rows
       \<and> most_recent_50 rows (day_matches u 1710046800 1710133200 db))"
  using list_of_day [of "Some ''2024-03-10''" "Some ''-300''" 1710010800 1710097200 u db]
    list_of_day [of "Some ''2024-03-10''" "Some ''300''" 1710046800 1710133200 u db]
  by (simp add: day_range_minus_300 day_range_plus_300)

theorem list_day_interval_witness:
  "get_transactions (Some ''alice'') (Some ''2024-03-10'') (Some ''-300'')
     [row0\<lparr>occurredAt := 1710014400\<rparr>] = TransactionsJson [row0\<lparr>occurredAt := 1710014400\<rparr>]
   \<and> most_recent_50 [row0\<lparr>occurredAt := 1710014400\<rparr>]
        (day_matches ''alice'' 1710010800 1710097200 [row0\<lparr>occurredAt := 1710014400\<rparr>])"
proof -
  have g: "get_transactions (Some ''alice'') (Some ''2024-03-10'') (Some ''-300'')
     [row0\<lparr>occurredAt := 1710014400\<rparr>] = TransactionsJson [row0\<lparr>occurredAt := 1710014400\<rparr>]"
    by code_simp
  from list_day_interval [of "''alice''" "[row0\<lparr>occurredAt := 1710014400\<rparr>]"] g
  show ?thesis by auto
qed

text \<open>
  The claim as it was stated fails: with \<^verbatim>\<open>tzOffset=-300\<close> a transaction of
  2024-03-09T20:00:00Z is returned, which is outside the interval the claim names.
\<close>

theorem list_day_counterexample:
  "get_transactions (Some ''alice'') (Some ''2024-03-10'') (Some ''-300'')
     [row0\<lparr>occurredAt := 1710014400\<rparr>] = TransactionsJson [row0\<lparr>occurredAt := 1710014400\<rparr>]
   \<and> userId (row0\<lparr>occurredAt := 1710014400\<rparr>) = ''alice''
   \<and> \<not> (1710046800 \<le> occurredAt (row0\<lparr>occurredAt := 1710014400\<rparr>)
        \<and> occurredAt (row0\<lparr>occurredAt := 1710014400\<rparr>) < 1710133200)"
  by code_simp

subsection \<open>A successful update\<close>

lemma put_prepare_Inr:
  assumes "put_prepare e user i body = Inr (uid, us)"
  shows "user = Some uid \<and> i \<noteq> [] \<and>
         (\<exists>b p. body = Some b \<and> build_payload e b = Inr p \<and> \<not> invalid_payload p \<and>
                build_set e p = Inr us)"
  using assms
  by (auto simp: put_prepare_def split: if_splits option.splits sum.splits)

lemma apply_set_key [simp]:
  "tx_id (apply_set us r) = tx_id r" "userId (apply_set us r) = userId r"
  "createdAt (apply_set us r) = createdAt r" "updatedAt (apply_set us r) = updatedAt r"
  by (simp_all add: apply_set_def)

lemma apply_set_fields [simp]:
  "title (apply_set us r) = set_title us" "amount (apply_set us r) = set_amount us"
  "currency (apply_set us r) = set_currency us" "tx_type (apply_set us r) = set_type us"
  "category (apply_set us r) = set_category us" "note (apply_set us r) = set_note us"
  by (simp_all add: apply_set_def)

lemma owned_by_apply_set [simp]: "owned_by i uid (apply_set us r) = owned_by i uid r"
  by (simp add: owned_by_def)

lemma put_success:
  assumes "put_transaction e user i body db = (TransactionJson r, db')"
  shows "\<exists>uid us. put_prepare e user i body = Inr (uid, us) \<and>
           (\<exists>r0 \<in> set db. owned_by i uid r0 \<and> r = apply_set us r0) \<and>
           db' = map (\<lambda>x. if owned_by i uid x then apply_set us x else x) db"
proof (cases "put_prepare e user i body")
  case (Inl resp)
  with assms show ?thesis
    by (auto simp: put_transaction_def dest: put_prepare_not_success)
next
  case (Inr st)
  obtain uid us where st: "st = (uid, us)" by (cases st)
  from assms Inr st obtain rest where
    upd: "update_rows us i uid db = Inr (r # rest, db')"
    by (auto simp: put_transaction_def split: sum.splits list.splits)
  then have m: "map (apply_set us) (filter (owned_by i uid) db) = r # rest"
    and d: "db' = map (\<lambda>x. if owned_by i uid x then apply_set us x else x) db"
    by (auto simp: update_rows_def split: if_splits)
  from m have "r \<in> set (map (apply_set us) (filter (owned_by i uid) db))" by simp
  then have "\<exists>r0 \<in> set db. owned_by i uid r0 \<and> r = apply_set us r0" by auto
  with Inr st d show ?thesis by blast
qed

lemma put_success_stored:
  assumes "put_transaction e user i body db = (TransactionJson r, db')"
  shows "r \<in> set db'"
proof -
  from put_success [OF assms] obtain uid us r0 where
    "r0 \<in> set db" "owned_by i uid r0" "r = apply_set us r0"
    "db' = map (\<lambda>x. if owned_by i uid x then apply_set us x else x) db"
    by blast
  then show ?thesis by force
qed

lemma build_set_fields:
  assumes "build_set e p = Inr us"
  shows "set_category us = p_category p" and "set_note us = p_note p"
    and "\<exists>n. toNumber (p_amount p) = Inr n \<and> set_amount us = num_toString n"
    and "bind_text e (p_type p) = Inr (set_type us)"
    and "set_currency us = (case p_currency p of Some c \<Rightarrow> c | None \<Rightarrow> [])"
    and "set_title us = (case p_title p of Some c \<Rightarrow> c | None \<Rightarrow> [])"
  using assms by (auto simp: build_set_def split: sum.splits)

lemma build_payload_fields:
  assumes "build_payload e b = Inr p"
  shows "p_amount p = get_prop b ''amount''" and "p_type p = get_prop b ''type''"
    and "\<exists>c. opt_trim (get_prop b ''category'') = Inr c \<and> p_category p = or_null c"
    and "\<exists>c. opt_trim (get_prop b ''note'') = Inr c \<and> p_note p = or_null c"
    and "\<exists>c. opt_trim (get_prop b ''currency'') = Inr c \<and> p_currency p = map_option toUpperCase c"
    and "opt_trim (get_prop b ''title'') = Inr (p_title p)"
  using assms by (auto simp: build_payload_def split: sum.splits if_splits)

subsection \<open>Category and note\<close>



lemma or_null_trim: "or_null (Some (trim s)) = (if trim s = [] then None else Some (trim s))"
  by (simp add: or_null_def)



subsection \<open>The amount of an update\<close>

lemma toUpperCase_empty [simp]: "toUpperCase s = [] \<longleftrightarrow> s = []"
  by (simp add: toUpperCase_def)









subsection \<open>A successful creation\<close>

lemma ai_request_not_created:
  "ai_request e user body = Inl resp \<Longrightarrow> resp \<noteq> CreatedJson ob r"
  by (auto simp: ai_request_def split: option.splits sum.splits if_splits)

lemma post_ai_success:
  assumes "post_ai e user body db = (CreatedJson ob r, db')"
  shows "\<exists>uid p. ai_request e user body = Inr (uid, p) \<and> generateObject e p = Inr ob \<and>
           new_row e uid ob = Inr r \<and> db' = db @ [r]"
proof (cases "ai_request e user body")
  case (Inl resp)
  with assms show ?thesis
    by (auto simp: post_ai_def dest: ai_request_not_created)
next
  case (Inr st)
  with assms show ?thesis
    by (auto simp: post_ai_def insert_row_def split: sum.splits if_splits prod.splits)
qed

lemma ai_request_user:
  "ai_request e user body = Inr (uid, p) \<Longrightarrow> user = Some uid"
  by (auto simp: ai_request_def split: option.splits sum.splits if_splits)

lemma new_row_fields:
  assumes "new_row e uid ob = Inr r"
  shows "userId r = uid" and "amount r = num_toString (ex_amount ob)"
    and "currency r = ex_currency ob" and "tx_type r = ex_type ob"
    and "tx_id r = randomUUID e"
    and "\<exists>k. createdAt r = clock e k div 1000 \<and> updatedAt r = clock e (Suc k) div 1000"
  using assms by (auto simp: new_row_def Let_def split: option.splits)

lemma schema_parse_type:
  "schema_parse v = Some ob \<Longrightarrow> ex_type ob = ''income'' \<or> ex_type ob = ''expense''"
  by (auto simp: schema_parse_def Let_def split: jsval.splits option.splits if_splits)

lemma generateObject_type:
  "generateObject e p = Inr ob \<Longrightarrow> ex_type ob = ''income'' \<or> ex_type ob = ''expense''"
  by (auto simp: generateObject_def split: option.splits dest: schema_parse_type)

lemma create_type_checked:
  assumes "post_ai e user body db = (CreatedJson ob r, db')"
  shows "tx_type r = ''income'' \<or> tx_type r = ''expense''"
proof -
  from post_ai_success [OF assms] obtain uid p where
    "generateObject e p = Inr ob" "new_row e uid ob = Inr r" by blast
  then show ?thesis
    using generateObject_type [of e p ob] new_row_fields(4) [of e uid ob r] by simp
qed

subsection \<open>Reading back\<close>

lemma day_range_none: "day_range None None = Inr None"
  by (simp add: day_range_def)

lemma listed_when_few:
  assumes "r \<in> set db" and "userId r = uid"
    and "length (filter (\<lambda>t. userId t = uid) db) \<le> 50"
  shows "\<exists>rows. get_transactions (Some uid) None None db = TransactionsJson rows \<and> r \<in> set rows"
proof -
  have f: "filter (\<lambda>t. userId t = uid \<and> in_range None t) db = filter (\<lambda>t. userId t = uid) db"
    by (simp add: in_range_def)
  have "most_recent_50 (select_rows uid None db) (filter (\<lambda>t. userId t = uid) db)"
    using select_rows_most_recent [of uid None db] by (simp add: f)
  from most_recent_50_all [OF this assms(3)]
  have "set (select_rows uid None db) = set (filter (\<lambda>t. userId t = uid) db)"
    by (rule mset_eq_setD)
  with assms(1,2) have "r \<in> set (select_rows uid None db)" by simp
  then show ?thesis
    by (simp add: get_transactions_def day_range_none)
qed

subsection \<open>Amount and currency\<close>

lemma put_success_fields:
  assumes "put_transaction e (Some uid) i (Some b) db = (TransactionJson r, db')"
  shows "userId r = uid"
    and "\<exists>n. toNumber (get_prop b ''amount'') = Inr n \<and> amount r = num_toString n"
    and "\<exists>c. opt_trim (get_prop b ''currency'') = Inr (Some c) \<and> currency r = toUpperCase c"
    and "bind_text e (get_prop b ''type'') = Inr (tx_type r)"
proof -
  from put_success [OF assms] obtain uid' us r0 where
    prep: "put_prepare e (Some uid) i (Some b) = Inr (uid', us)"
    and r0: "r0 \<in> set db" "owned_by i uid' r0" "r = apply_set us r0"
    by blast
  from prep have u: "uid' = uid" by (auto dest: put_prepare_user)
  from put_prepare_Inr [OF prep] obtain p where
    p: "build_payload e b = Inr p" and v: "\<not> invalid_payload p" and s: "build_set e p = Inr us"
    by auto
  show "userId r = uid"
    using r0(2,3) u by (simp add: owned_by_def)
  show "\<exists>n. toNumber (get_prop b ''amount'') = Inr n \<and> amount r = num_toString n"
    using build_set_fields(3) [OF s] build_payload_fields(1) [OF p] r0(3) by simp
  from build_payload_fields(5) [OF p] obtain c where
    c: "opt_trim (get_prop b ''currency'') = Inr c" "p_currency p = map_option toUpperCase c"
    by blast
  from v c(2) obtain c' where "c = Some c'"
    by (cases c) (auto simp: invalid_payload_def)
  with c build_set_fields(5) [OF s] r0(3)
  show "\<exists>c. opt_trim (get_prop b ''currency'') = Inr (Some c) \<and> currency r = toUpperCase c"
    by simp
  show "bind_text e (get_prop b ''type'') = Inr (tx_type r)"
    using build_set_fields(4) [OF s] build_payload_fields(2) [OF p] r0(3) by simp
qed

lemma twelve_fifty:
  "toNumber (JStr ''12.50'') = Inr (Fin (25 / 2))" "num_toString (Fin (25 / 2)) = ''12.5''"
  "toNumber (JStr ''12.5'') = Inr (Fin (25 / 2))"
  "opt_trim (JStr ''USD'') = Inr (Some ''USD'')" "toUpperCase ''USD'' = ''USD''"
  by code_simp+

text \<open>
  Claim C4, as amended. A write stores the currency it is given (an update after trimming
  and upper-casing, so \<^verbatim>\<open>USD\<close> stays \<^verbatim>\<open>USD\<close>) and stores as amount the text of the
  amount's Number value: \<^verbatim>\<open>Number(amount).toString()\<close> on update, the extracted Number's
  \<^verbatim>\<open>toString()\<close> on creation. The stored row is in the table and is returned to its owner
  by the list while the owner has at most fifty rows. The amount \<^verbatim>\<open>12.50\<close> is the
  Number 12.5 and is stored and read back as \<^verbatim>\<open>12.5\<close>; an amount written \<^verbatim>\<open>12.5\<close> is
  stored as it is written.
\<close>

theorem amount_stored_as_number_text:
  "(put_transaction e (Some uid) i (Some b) db = (TransactionJson r, db') \<longrightarrow>
      r \<in> set db' \<and> userId r = uid
      \<and> (\<exists>n. toNumber (get_prop b ''amount'') = Inr n \<and> amount r = num_toString n)
      \<and> (\<exists>c. opt_trim (get_prop b ''currency'') = Inr (Some c) \<and> currency r = toUpperCase c))
   \<and> (post_ai e (Some uid) body db = (CreatedJson ob r, db') \<longrightarrow>
      r \<in> set db' \<and> userId r = uid
      \<and> amount r = num_toString (ex_amount ob) \<and> currency r = ex_currency ob)
   \<and> (r \<in> set db' \<and> userId r = uid \<and> length (filter (\<lambda>t. userId t = uid) db') \<le> 50 \<longrightarrow>
      (\<exists>rows. get_transactions (Some uid) None None db' = TransactionsJson rows \<and> r \<in> set rows))
   \<and> toNumber (JStr ''12.50'') = Inr (Fin (25 / 2)) \<and> num_toString (Fin (25 / 2)) = ''12.5''
   \<and> toNumber (JStr ''12.5'') = Inr (Fin (25 / 2))
   \<and> opt_trim (JStr ''USD'') = Inr (Some ''USD'') \<and> toUpperCase ''USD'' = ''USD''"
proof -
  have a1: "put_transaction e (Some uid) i (Some b) db = (TransactionJson r, db') \<longrightarrow>
      r \<in> set db' \<and> userId r = uid
      \<and> (\<exists>n. toNumber (get_prop b ''amount'') = Inr n \<and> amount r = num_toString n)
      \<and> (\<exists>c. opt_trim (get_prop b ''currency'') = Inr (Some c) \<and> currency r = toUpperCase c)"
    using put_success_stored [of e "Some uid" i "Some b" db r db']
      put_success_fields(1,2,3) [of e uid i b db r db'] by blast
  have a2: "post_ai e (Some uid) body db = (CreatedJson ob r, db') \<longrightarrow>
      r \<in> set db' \<and> userId r = uid
      \<and> amount r = num_toString (ex_amount ob) \<and> currency r = ex_currency ob"
  proof
    assume c: "post_ai e (Some uid) body db = (CreatedJson ob r, db')"
    from post_ai_success [OF c] obtain uid' p where
      q: "ai_request e (Some uid) body = Inr (uid', p)" "new_row e uid' ob = Inr r" "db' = db @ [r]"
      by blast
    from q(1) have "uid' = uid" by (auto dest: ai_request_user)
    with q(2,3) new_row_fields(1,2,3) [of e uid' ob r]
    show "r \<in> set db' \<and> userId r = uid
      \<and> amount r = num_toString (ex_amount ob) \<and> currency r = ex_currency ob"
      by simp
  qed
  have a3: "r \<in> set db' \<and> userId r = uid \<and> length (filter (\<lambda>t. userId t = uid) db') \<le> 50 \<longrightarrow>
      (\<exists>rows. get_transactions (Some uid) None None db' = TransactionsJson rows \<and> r \<in> set rows)"
    using listed_when_few [of r db' uid] by blast
  from a1 a2 a3 twelve_fifty show ?thesis by blast
qed

theorem amount_stored_as_number_text_witness:
  "put_transaction env0 (Some ''alice'') ''t1'' (Some body_1250) [row0]
     = (TransactionJson (row0\<lparr>category := None, note := None\<rparr>),
        [row0\<lparr>category := None, note := None\<rparr>])
   \<and> (\<exists>n. toNumber (get_prop body_1250 ''amount'') = Inr n
          \<and> amount (row0\<lparr>category := None, note := None\<rparr>) = num_toString n)
   \<and> (\<exists>c. opt_trim (get_prop body_1250 ''currency'') = Inr (Some c)
          \<and> currency (row0\<lparr>category := None, note := None\<rparr>) = toUpperCase c)
   \<and> (\<exists>rows. get_transactions (Some ''alice'') None None [row0\<lparr>category := None, note := None\<rparr>]
                = TransactionsJson rows \<and> row0\<lparr>category := None, note := None\<rparr> \<in> set rows)
   \<and> post_ai env_ai (Some ''alice'') (Some text_body) []
       = (CreatedJson \<lparr>ex_title = ''Chipotle'', ex_amount = Fin (25 / 2),
            ex_currency = ''USD'', ex_type = ''expense'', ex_category = ''food'',
            ex_note = None, ex_occurredAt = None\<rparr>
           (row0\<lparr>tx_id := ''t2'', note := None\<rparr>), [row0\<lparr>tx_id := ''t2'', note := None\<rparr>])
   \<and> amount (row0\<lparr>tx_id := ''t2'', note := None\<rparr>) = num_toString (Fin (25 / 2))
   \<and> currency (row0\<lparr>tx_id := ''t2'', note := None\<rparr>) = ''USD''"
proof -
  let ?r = "row0\<lparr>category := None, note := None\<rparr>"
  let ?c = "row0\<lparr>tx_id := ''t2'', note := None\<rparr>"
  have put: "put_transaction env0 (Some ''alice'') ''t1'' (Some body_1250) [row0]
     = (TransactionJson ?r, [?r])"
    by code_simp
  have few: "?r \<in> set [?r]" "userId ?r = ''alice''"
    "length (filter (\<lambda>t. userId t = ''alice'') [?r]) \<le> 50"
    by (simp_all add: row0_def)
  have c0: "post_ai env_ai (Some ''alice'') (Some text_body) []
     = (CreatedJson \<lparr>ex_title = ''Chipotle'', ex_amount = Fin (25 / 2),
          ex_currency = ''USD'', ex_type = ''expense'', ex_category = ''food'',
          ex_note = None, ex_occurredAt = None\<rparr> ?c, [?c])"
    by code_simp
  note t1 = amount_stored_as_number_text [of env0 "''alice''" "''t1''" body_1250 "[row0]" ?r "[?r]"]
  note t2 = amount_stored_as_number_text [of env_ai "''alice''" _ _ "[]" ?c "[?c]"
      "Some text_body" "\<lparr>ex_title = ''Chipotle'', ex_amount = Fin (25 / 2),
          ex_currency = ''USD'', ex_type = ''expense'', ex_category = ''food'',
          ex_note = None, ex_occurredAt = None\<rparr>"]
  from t1 put few have a:
    "\<exists>n. toNumber (get_prop body_1250 ''amount'') = Inr n \<and> amount ?r = num_toString n"
    "\<exists>c. opt_trim (get_prop body_1250 ''currency'') = Inr (Some c) \<and> currency ?r = toUpperCase c"
    "\<exists>rows. get_transactions (Some ''alice'') None None [?r] = TransactionsJson rows \<and> ?r \<in> set rows"
    by blast+
  from t2 c0 have b: "amount ?c = num_toString (Fin (25 / 2))" "currency ?c = ''USD''"
    by simp_all
  from put a c0 b show ?thesis by blast
qed

text \<open>
  The claim as it was stated fails: an update that writes the amount \<^verbatim>\<open>12.50\<close> with the
  currency \<^verbatim>\<open>USD\<close> stores \<^verbatim>\<open>12.5\<close>, and the list returns \<^verbatim>\<open>12.5\<close>.
\<close>

theorem amount_round_trip_counterexample:
  "get_prop body_1250 ''amount'' = JStr ''12.50''
   \<and> get_prop body_1250 ''currency'' = JStr ''USD''
   \<and> put_transaction env0 (Some ''alice'') ''t1'' (Some body_1250) [row0]
       = (TransactionJson (row0\<lparr>category := None, note := None\<rparr>),
          [row0\<lparr>category := None, note := None\<rparr>])
   \<and> get_transactions (Some ''alice'') None None [row0\<lparr>category := None, note := None\<rparr>]
       = TransactionsJson [row0\<lparr>category := None, note := None\<rparr>]
   \<and> amount (row0\<lparr>category := None, note := None\<rparr>) = ''12.5''
   \<and> ''12.5'' \<noteq> ''12.50''"
  by code_simp

subsection \<open>The type\<close>

text \<open>
  Claim C5. The creation stores a type the schema has checked (\<open>create_type_checked\<close>).
  The update does not check it: a request with the type \<^verbatim>\<open>gift\<close> succeeds, and the row
  it stores has the type \<^verbatim>\<open>gift\<close>.
\<close>

theorem update_stores_unchecked_type:
  "get_prop body_gift ''type'' = JStr ''gift''
   \<and> put_transaction env0 (Some ''alice'') ''t1'' (Some body_gift) [row0]
       = (TransactionJson (row0\<lparr>title := ''Burrito'', amount := ''1'', tx_type := ''gift'',
                                  category := None, note := None\<rparr>),
          [row0\<lparr>title := ''Burrito'', amount := ''1'', tx_type := ''gift'',
                 category := None, note := None\<rparr>])
   \<and> tx_type (row0\<lparr>title := ''Burrito'', amount := ''1'', tx_type := ''gift'',
                     category := None, note := None\<rparr>) \<noteq> ''income''
   \<and> tx_type (row0\<lparr>title := ''Burrito'', amount := ''1'', tx_type := ''gift'',
                     category := None, note := None\<rparr>) \<noteq> ''expense''"
  by code_simp

subsection \<open>Bookkeeping timestamps\<close>





subsection \<open>Creation from text\<close>

text \<open>
  Claim C7. When the handler reaches the generation service with the prompt \<open>p\<close> and
  the service produces no object, or one that the schema rejects, the request fails with
  the uncaught \<^verbatim>\<open>NoObjectGenerated\<close> (status 500) and the table is left as it is.
\<close>

theorem extraction_failure_atomic:
  assumes "ai_request e user body = Inr (uid, p)"
    and "generate e p = None \<or> (\<exists>v. generate e p = Some v \<and> schema_parse v = None)"
  shows "post_ai e user body db = (Uncaught NoObjectGenerated, db)
       \<and> status (fst (post_ai e user body db)) = 500
       \<and> snd (post_ai e user body db) = db"
proof -
  from assms(2) have "generateObject e p = Inl NoObjectGenerated"
    by (auto simp: generateObject_def)
  with assms(1) have "post_ai e user body db = (Uncaught NoObjectGenerated, db)"
    by (simp add: post_ai_def)
  then show ?thesis by (simp add: status_def)
qed

theorem extraction_failure_atomic_witness:
  "ai_request env0 (Some ''alice'') (Some text_body)
     = Inr (''alice'', \<lparr>preferredCurrency = ''USD'', todayISO = 1710050000123,
                        user_text = ''chipotle 12.50''\<rparr>)
   \<and> generate env0 \<lparr>preferredCurrency = ''USD'', todayISO = 1710050000123,
                     user_text = ''chipotle 12.50''\<rparr> = None
   \<and> post_ai env0 (Some ''alice'') (Some text_body) [row0] = (Uncaught NoObjectGenerated, [row0])
   \<and> generate (env0\<lparr>generate := (\<lambda>p. Some body0)\<rparr>)
        \<lparr>preferredCurrency = ''USD'', todayISO = 1710050000123,
         user_text = ''chipotle 12.50''\<rparr> = Some body0
   \<and> schema_parse body0 = None
   \<and> post_ai (env0\<lparr>generate := (\<lambda>p. Some body0)\<rparr>) (Some ''alice'') (Some text_body) [row0]
       = (Uncaught NoObjectGenerated, [row0])"
proof -
  let ?p = "\<lparr>preferredCurrency = ''USD'', todayISO = 1710050000123,
             user_text = ''chipotle 12.50''\<rparr>"
  let ?e = "env0\<lparr>generate := (\<lambda>p. Some body0)\<rparr>"
  have r1: "ai_request env0 (Some ''alice'') (Some text_body) = Inr (''alice'', ?p)"
    by code_simp
  have r2: "ai_request ?e (Some ''alice'') (Some text_body) = Inr (''alice'', ?p)"
    by code_simp
  have g1: "generate env0 ?p = None"
    by (simp add: env0_def)
  have g2: "generate ?e ?p = Some body0"
    by simp
  have s: "schema_parse body0 = None"
    by code_simp
  from g1 have h1: "generate env0 ?p = None \<or> (\<exists>v. generate env0 ?p = Some v \<and> schema_parse v = None)"
    by simp
  from g2 s have h2: "generate ?e ?p = None \<or> (\<exists>v. generate ?e ?p = Some v \<and> schema_parse v = None)"
    by simp
  from extraction_failure_atomic [OF r1 h1, of "[row0]"]
    extraction_failure_atomic [OF r2 h2, of "[row0]"] r1 g1 g2 s
  show ?thesis by simp
qed

lemma text_or_nullish: "nullish v \<Longrightarrow> text_or d v = Inr (trim d)"
  by (simp add: text_or_def)

lemma text_or_JStr: "text_or d (JStr s) = Inr (trim s)"
  by (simp add: text_or_def nullish_def)

lemma text_or_primitive:
  "v = JUndefined \<or> v = JNull \<or> (\<exists>b. v = JBool b) \<or> (\<exists>n. v = JNum n) \<or> (\<exists>s. v = JStr s)
     \<Longrightarrow> \<exists>c. text_or d v = Inr c"
  by (auto simp: text_or_def nullish_def)

lemma trim_empty [simp]: "trim [] = []"
  by (simp add: trim_def)

text \<open>
  Claim C8, as amended. Take an authenticated request with a JSON body whose text is
  empty after trimming; a missing or \<^verbatim>\<open>null\<close> text is one, and so is a string of white
  space. The generation service is not consulted (the outcome is the same with any
  service) and the table is left as it is. The response is \<^verbatim>\<open>Missing text\<close> (400)
  whenever the currency of the body converts to a string, as a missing one, \<^verbatim>\<open>null\<close>, a
  string, a number and a boolean do; when the conversion throws, the response is that
  uncaught exception.
\<close>

theorem missing_text:
  assumes "text_or [] (get_prop b ''text'') = Inr []"
  shows "(\<forall>c. text_or ''USD'' (get_prop b ''currency'') = Inr c \<longrightarrow>
            post_ai e (Some u) (Some b) db = (ErrorJson ''Missing text'' 400, db))
       \<and> (\<forall>x. text_or ''USD'' (get_prop b ''currency'') = Inl x \<longrightarrow>
            post_ai e (Some u) (Some b) db = (Uncaught x, db))
       \<and> snd (post_ai e (Some u) (Some b) db) = db
       \<and> post_ai (e\<lparr>generate := g\<rparr>) (Some u) (Some b) db = post_ai e (Some u) (Some b) db"
proof -
  have r: "ai_request e' (Some u) (Some b) =
             (case text_or ''USD'' (get_prop b ''currency'') of
                Inl x \<Rightarrow> Inl (Uncaught x)
              | Inr c \<Rightarrow> Inl (ErrorJson ''Missing text'' 400))" for e'
    using assms by (simp add: ai_request_def split: sum.splits)
  have p: "post_ai e' (Some u) (Some b) db =
             (case text_or ''USD'' (get_prop b ''currency'') of
                Inl x \<Rightarrow> (Uncaught x, db)
              | Inr c \<Rightarrow> (ErrorJson ''Missing text'' 400, db))" for e'
    by (simp add: post_ai_def r split: sum.splits)
  show ?thesis
    by (simp add: p split: sum.splits)
qed

theorem missing_text_witness:
  "text_or [] (get_prop blank_body ''text'') = Inr []
   \<and> text_or ''USD'' (get_prop blank_body ''currency'') = Inr ''USD''
   \<and> post_ai env_ai (Some ''alice'') (Some blank_body) [row0]
       = (ErrorJson ''Missing text'' 400, [row0])
   \<and> text_or [] (get_prop (JObj []) ''text'') = Inr []
   \<and> post_ai env_ai (Some ''alice'') (Some (JObj [])) [row0]
       = (ErrorJson ''Missing text'' 400, [row0])"
proof -
  have t: "text_or [] (get_prop blank_body ''text'') = Inr []"
    "text_or [] (get_prop (JObj []) ''text'') = Inr []"
    by code_simp+
  have c: "text_or ''USD'' (get_prop blank_body ''currency'') = Inr ''USD''"
    "text_or ''USD'' (get_prop (JObj []) ''currency'') = Inr ''USD''"
    by code_simp+
  from missing_text [OF t(1), of env_ai "''alice''" "[row0]"]
    missing_text [OF t(2), of env_ai "''alice''" "[row0]"] t c
  show ?thesis by simp
qed

text \<open>
  The claim as it was stated fails for a body whose currency is an object with an own
  \<^verbatim>\<open>toString\<close> property: the handler converts the currency before it checks the text,
  the conversion throws, and the answer is not \<^verbatim>\<open>Missing text\<close>.
\<close>

theorem missing_text_counterexample:
  "text_or [] (get_prop odd_currency_body ''text'') = Inr []
   \<and> post_ai env_ai (Some ''alice'') (Some odd_currency_body) [row0]
       = (Uncaught TypeError, [row0])
   \<and> status (Uncaught TypeError) = 500"
  by code_simp

subsection \<open>Integers are exact\<close>

lemma pow2_pos [simp]: "0 < pow2 e"
  by (simp add: pow2_def)

lemma pow2_nonneg_int: "0 \<le> e \<Longrightarrow> pow2 e = of_int (2 ^ nat e)"
  by (simp add: pow2_def)

lemma round_half_even_int [simp]: "round_half_even (of_int k) = k"
  by (simp add: round_half_even_def round_from_def)

lemma pow2_nonzero [simp]: "pow2 e \<noteq> 0"
  by (simp add: pow2_def)

lemma bitlen_one [simp]: "bitlen 1 = 1"
  by (simp add: bitlen_alt_def)

lemma flog2_int:
  assumes "0 < n"
  shows "flog2 (of_int n) = bitlen n - 1"
proof -
  have "(2::int) ^ nat (bitlen n - 1) \<le> n"
    using bitlen_bounds [OF assms] by simp
  then have "(of_int ((2::int) ^ nat (bitlen n - 1)) :: rat) \<le> of_int n"
    by (simp only: of_int_le_iff)
  moreover have "0 \<le> bitlen n - 1"
    using assms by (simp add: bitlen_def floorlog_def)
  ultimately have "pow2 (bitlen n - 1) \<le> of_int n"
    by (simp add: pow2_nonneg_int)
  then show ?thesis
    by (simp add: flog2_def flog2_fix_def)
qed

lemma rnd_at_exact:
  assumes "0 < n" and "of_int n / pow2 e = (of_int k :: rat)" and "bitlen k + e \<le> 1024"
  shows "rnd_at (of_int n) e = Fin (of_int n)"
proof -
  have "(of_int k :: rat) * pow2 e = of_int n"
    using assms(2) by (simp add: divide_eq_eq)
  with assms show ?thesis
    by (simp add: rnd_at_def rnd_pack_def)
qed

lemma rnd_at_exact_neg:
  assumes "0 < n" and "of_int n / pow2 e = (of_int k :: rat)" and "bitlen k + e \<le> 1024"
  shows "rnd_at (- of_int n) e = Fin (- of_int n)"
proof -
  have "(of_int k :: rat) * pow2 e = of_int n"
    using assms(2) by (simp add: divide_eq_eq)
  with assms show ?thesis
    by (simp add: rnd_at_def rnd_pack_def)
qed

lemma rnd_pos_int:
  assumes "0 < n" and "n \<le> 2 ^ 53"
  shows "\<exists>k. of_int n / pow2 (max (flog2 \<bar>of_int n\<bar> - 52) (- 1074)) = (of_int k :: rat)
            \<and> bitlen k + max (flog2 \<bar>of_int n\<bar> - 52) (- 1074) \<le> 1024"
proof -
  have abs: "\<bar>of_int n :: rat\<bar> = of_int n"
    using assms(1) by simp
  have b1: "1 \<le> bitlen n"
    using assms(1) by (simp add: bitlen_def floorlog_def)
  have "n < 2 ^ 54"
    using assms(2) by simp
  then have b2: "bitlen n \<le> 54"
    by (simp add: bitlen_le_iff_power)
  define e where "e = max (flog2 \<bar>of_int n\<bar> - 52) (- 1074)"
  have e: "e = bitlen n - 53"
    using b1 by (simp add: e_def abs flog2_int [OF assms(1)])
  show ?thesis
  proof (cases "e \<le> 0")
    case True
    have "of_int n / pow2 e = (of_int (n * 2 ^ nat (- e)) :: rat)"
      using True by (simp add: pow2_def)
    moreover have "n * 2 ^ nat (- e) < 2 ^ 54 * 2 ^ 52"
    proof -
      have "nat (- e) \<le> 52" using e b1 by simp
      then have "(2::int) ^ nat (- e) \<le> 2 ^ 52"
        by (intro power_increasing) simp_all
      with \<open>n < 2 ^ 54\<close> assms(1) show ?thesis
        by (intro mult_less_le_imp_less) simp_all
    qed
    then have "bitlen (n * 2 ^ nat (- e)) \<le> 106"
      by (simp add: bitlen_le_iff_power)
    ultimately show ?thesis
      unfolding e_def [symmetric] using True by (intro exI [of _ "n * 2 ^ nat (- e)"]) simp
  next
    case False
    with e b2 have e1: "e = 1" and "bitlen n = 54" by simp_all
    then have "2 ^ 53 \<le> n"
      using bitlen_bounds [OF assms(1)] by simp
    with assms(2) have n: "n = 2 ^ 53" by simp
    have "of_int n / pow2 e = (of_int (2 ^ 52) :: rat)"
      by (simp add: n e1 pow2_def)
    moreover have "bitlen (2 ^ 52) + e \<le> 1024"
      by (simp add: e1 bitlen_le_iff_power)
    ultimately show ?thesis
      unfolding e_def [symmetric] by blast
  qed
qed

lemma rnd_int:
  assumes "\<bar>n\<bar> \<le> 2 ^ 53"
  shows "rnd (of_int n) = Fin (of_int n)"
proof -
  consider "n = 0" | "0 < n" | "n < 0" by linarith
  then show ?thesis
  proof cases
    case 1
    then show ?thesis by (simp add: rnd_def)
  next
    case 2
    with assms have "n \<le> 2 ^ 53" by simp
    from rnd_pos_int [OF 2 this] obtain k where
      "of_int n / pow2 (max (flog2 \<bar>of_int n\<bar> - 52) (- 1074)) = (of_int k :: rat)"
      "bitlen k + max (flog2 \<bar>of_int n\<bar> - 52) (- 1074) \<le> 1024"
      by blast
    from rnd_at_exact [OF 2 this] 2 show ?thesis
      by (simp add: rnd_def)
  next
    case 3
    then have p: "0 < - n" by simp
    with assms have "- n \<le> 2 ^ 53" by simp
    from rnd_pos_int [OF p this] obtain k where
      "of_int (- n) / pow2 (max (flog2 \<bar>of_int (- n)\<bar> - 52) (- 1074)) = (of_int k :: rat)"
      "bitlen k + max (flog2 \<bar>of_int (- n)\<bar> - 52) (- 1074) \<le> 1024"
      by blast
    from rnd_at_exact_neg [OF p this] 3 show ?thesis
      by (simp add: rnd_def)
  qed
qed

subsection \<open>Reading decimal strings\<close>

lemma is_digit_facts:
  assumes "is_digit c"
  shows "\<not> is_ws c" and "c \<noteq> CHR ''-''" and "c \<noteq> CHR ''+''" and "c \<noteq> CHR ''.''"
    and "c \<noteq> CHR ''x''" and "c \<noteq> CHR ''X''" and "c \<noteq> CHR ''o''" and "c \<noteq> CHR ''O''"
    and "c \<noteq> CHR ''b''" and "c \<noteq> CHR ''B''" and "c \<noteq> CHR ''I''"
    and "digit_in 10 c = Some (of_char c - 48)"
  using assms by (auto simp: is_digit_def is_ws_def digit_in_def Let_def)

lemma digit_char:
  assumes "0 \<le> k" and "k < 10"
  shows "is_digit (char_of (48 + k))" and "(of_char (char_of (48 + k)) :: nat) = 48 + nat k"
proof -
  have i: "(of_char (char_of (48 + k)) :: int) = 48 + k"
    using assms by simp
  have "(of_char (char_of (48 + k)) :: nat) = nat (of_char (char_of (48 + k)) :: int)"
    by (simp only: nat_of_char)
  also have "\<dots> = nat (48 + k)"
    by (simp only: i)
  also have "\<dots> = 48 + nat k"
    using assms by (simp add: nat_add_distrib)
  finally show n: "(of_char (char_of (48 + k)) :: nat) = 48 + nat k" .
  show "is_digit (char_of (48 + k))"
    using assms by (simp add: is_digit_def n)
qed

lemma digits_value_snoc:
  "digits_value r (s @ [c]) = int r * digits_value r s + (case digit_in r c of Some d \<Rightarrow> int d | None \<Rightarrow> 0)"
  by (simp add: digits_value_def)

lemma dec_digits_ok:
  "0 \<le> n \<Longrightarrow> list_all is_digit (dec_digits n) \<and> dec_digits n \<noteq> [] \<and> digits_value 10 (dec_digits n) = n"
proof (induction n rule: dec_digits.induct)
  case (1 n)
  show ?case
  proof (cases "n < 10")
    case True
    with 1(2) digit_char [of n] show ?thesis
      by (subst (1 2 3) dec_digits.simps) (simp add: digits_value_def is_digit_facts(12))
  next
    case False
    then have ih: "list_all is_digit (dec_digits (n div 10))" "dec_digits (n div 10) \<noteq> []"
      "digits_value 10 (dec_digits (n div 10)) = n div 10"
      using 1 by simp_all
    have m: "0 \<le> n mod 10" "n mod 10 < 10" by simp_all
    from False ih digit_char [OF m] show ?thesis
      by (subst (1 2 3) dec_digits.simps) (simp add: digits_value_snoc is_digit_facts(12))
  qed
qed

lemma digits_value_zeros:
  "digits_value 10 (replicate k (CHR ''0'') @ s) = digits_value 10 s"
proof -
  have "foldl (\<lambda>a c. int 10 * a + (case digit_in 10 c of Some d \<Rightarrow> int d | None \<Rightarrow> 0)) 0
          (replicate k (CHR ''0'')) = 0"
    by (induction k) (simp_all add: digit_in_def)
  then show ?thesis
    by (simp add: digits_value_def)
qed

lemma pad_ok:
  assumes "0 \<le> n"
  shows "list_all is_digit (pad w n)" and "pad w n \<noteq> []" and "digits_value 10 (pad w n) = n"
  using dec_digits_ok [OF assms]
  by (auto simp: pad_def digits_value_zeros list_all_iff is_digit_def)

lemma trim_id:
  assumes "s \<noteq> []" and "\<not> is_ws (hd s)" and "\<not> is_ws (last s)"
  shows "trim s = s"
proof -
  from assms(1,2) have "dropWhile is_ws s = s"
    by (cases s) simp_all
  moreover from assms(1,3) have "dropWhile is_ws (rev s) = rev s"
    by (cases "rev s") (simp_all add: last_rev [symmetric] del: last_rev)
  ultimately show ?thesis
    by (simp add: trim_def)
qed

lemma digits_not_prefixed:
  assumes "list_all is_digit s" and "\<not> is_digit b"
  shows "take 2 s \<noteq> [a, b]"
proof
  assume "take 2 s = [a, b]"
  then have "b \<in> set (take 2 s)" by simp
  then have "b \<in> set s" by (rule in_set_takeD)
  with assms show False by (simp add: list_all_iff)
qed

lemma parse_unsigned_decimal_digits:
  assumes "list_all is_digit s" and "s \<noteq> []"
  shows "parse_unsigned_decimal s = Some (of_int (digits_value 10 s))"
proof -
  from assms(1) have tw: "takeWhile is_digit s = s" and dw: "dropWhile is_digit s = []"
    by (simp_all add: list_all_iff)
  show ?thesis
    unfolding parse_unsigned_decimal_def Let_def tw dw
    using assms(2) by (simp add: parse_exponent_def pow10_def)
qed

lemma str_unsigned_digits:
  assumes "list_all is_digit s" and "s \<noteq> []" and "digits_value 10 s \<le> 2 ^ 53"
    and "0 \<le> digits_value 10 s"
  shows "str_unsigned s = Fin (of_int (digits_value 10 s))"
proof -
  have "s \<noteq> ''Infinity''"
    using assms(1) by (auto simp: is_digit_def)
  moreover have "rnd (of_int (digits_value 10 s)) = Fin (of_int (digits_value 10 s))"
    using assms(3,4) by (intro rnd_int) simp
  ultimately show ?thesis
    using parse_unsigned_decimal_digits [OF assms(1,2)] by (simp add: str_unsigned_def)
qed

lemma string_to_number_digits:
  assumes "list_all is_digit s" and "s \<noteq> []" and "digits_value 10 s \<le> 2 ^ 53"
    and "0 \<le> digits_value 10 s"
  shows "string_to_number s = Fin (of_int (digits_value 10 s))"
proof -
  from assms(1,2) have h: "is_digit (hd s)" and l: "is_digit (last s)"
    by (simp_all add: list_all_iff)
  then have t: "trim s = s"
    using assms(2) by (intro trim_id) (simp_all add: is_digit_facts(1))
  have np: "take 2 s \<noteq> ''0x''" "take 2 s \<noteq> ''0X''" "take 2 s \<noteq> ''0o''" "take 2 s \<noteq> ''0O''"
    "take 2 s \<noteq> ''0b''" "take 2 s \<noteq> ''0B''"
    by (rule digits_not_prefixed [OF assms(1)], simp add: is_digit_def)+
  from h have sg: "hd s \<noteq> CHR ''+''" "hd s \<noteq> CHR ''-''"
    by (auto dest: is_digit_facts(2,3))
  show ?thesis
    using assms(2) np sg str_unsigned_digits [OF assms]
    by (simp add: string_to_number_def t Let_def)
qed

lemma string_to_number_pad:
  assumes "0 \<le> n" and "n \<le> 2 ^ 53"
  shows "string_to_number (pad w n) = Fin (of_int n)"
  using string_to_number_digits [of "pad w n"] pad_ok [OF assms(1), of w] assms by simp

lemma string_to_number_int_string:
  assumes "\<bar>n\<bar> \<le> 2 ^ 53"
  shows "string_to_number (int_string n) = Fin (of_int n)"
proof (cases "n < 0")
  case False
  then have "0 \<le> n" by simp
  from dec_digits_ok [OF this] assms False show ?thesis
    using string_to_number_digits [of "dec_digits n"] by (simp add: int_string_def)
next
  case True
  then have p: "0 \<le> - n" by simp
  let ?ds = "dec_digits (- n)"
  from dec_digits_ok [OF p] have d: "list_all is_digit ?ds" "?ds \<noteq> []"
    "digits_value 10 ?ds = - n" by simp_all
  let ?s = "CHR ''-'' # ?ds"
  have "is_digit (last ?ds)" using d(1,2) by (simp add: list_all_iff)
  then have "\<not> is_ws (last ?s)" using d(2) by (simp add: is_digit_facts(1))
  moreover have "\<not> is_ws (hd ?s)" by (simp add: is_ws_def)
  ultimately have t: "trim ?s = ?s" by (intro trim_id) simp_all
  have np: "take 2 ?s \<noteq> ''0x''" "take 2 ?s \<noteq> ''0X''" "take 2 ?s \<noteq> ''0o''"
    "take 2 ?s \<noteq> ''0O''" "take 2 ?s \<noteq> ''0b''" "take 2 ?s \<noteq> ''0B''"
    by simp_all
  have "str_unsigned ?ds = Fin (of_int (- n))"
    using str_unsigned_digits [OF d(1,2)] d(3) assms True by simp
  then show ?thesis
    using True np by (simp add: int_string_def string_to_number_def t Let_def num_neg_def)
qed

lemma split_on_none: "sep \<notin> set s \<Longrightarrow> split_on sep s = [s]"
  by (induction s) auto

lemma split_on_first:
  "sep \<notin> set a \<Longrightarrow> split_on sep (a @ sep # rest) = a # split_on sep rest"
proof (induction a)
  case Nil
  then show ?case by simp
next
  case (Cons c a)
  then show ?case by (cases "split_on sep rest") auto
qed

lemma split_date_string:
  assumes "0 \<le> y" and "0 \<le> m" and "0 \<le> d"
  shows "split_on (CHR ''-'') (date_string y m d) = [pad 4 y, pad 2 m, pad 2 d]"
proof -
  have n: "CHR ''-'' \<notin> set (pad w n)" if "0 \<le> n" for w n
    using pad_ok(1) [OF that, of w] is_digit_facts(2) by (auto simp: list_all_iff)
  show ?thesis
    using n [OF assms(1), of 4] n [OF assms(2), of 2] n [OF assms(3), of 2]
    by (simp add: date_string_def split_on_first split_on_none)
qed

subsection \<open>The calendar\<close>

lemma is_leap_eq: "is_leap y = leap_year y"
  unfolding is_leap_def leap_year_def by presburger

lemma div_step:
  fixes a k :: int
  assumes "1 < k"
  shows "(a + 1) div k = a div k + (if k dvd a + 1 then 1 else 0)"
proof -
  have r: "0 \<le> a mod k" "a mod k < k"
    using assms by simp_all
  have one: "1 div k = 0" "1 mod k = 1"
    using assms by (simp_all add: div_pos_pos_trivial mod_pos_pos_trivial)
  have e: "(a + 1) div k = a div k + (a mod k + 1) div k"
    by (simp add: div_add1_eq [of a 1 k] one)
  have m: "(a + 1) mod k = (a mod k + 1) mod k"
    by (simp add: mod_add_left_eq)
  show ?thesis
  proof (cases "a mod k + 1 = k")
    case True
    then have "(a mod k + 1) div k = 1" "(a mod k + 1) mod k = 0"
      using assms by simp_all
    with e m show ?thesis
      by (simp add: dvd_eq_mod_eq_0)
  next
    case False
    with r have lt: "a mod k + 1 < k" by simp
    then have "(a mod k + 1) div k = 0" "(a mod k + 1) mod k = a mod k + 1"
      using r by (simp_all add: div_pos_pos_trivial mod_pos_pos_trivial)
    with e m r show ?thesis
      by (simp add: dvd_eq_mod_eq_0)
  qed
qed

lemma dvd_shift: "(k::int) dvd c \<Longrightarrow> (k dvd (y - c)) = (k dvd y)"
  by (simp add: dvd_diff_left_iff)

lemma day_from_year_step: "day_from_year (y + 1) = day_from_year y + year_length y"
proof -
  have a4: "(y + 1 - 1969) div 4 = (y - 1969) div 4 + (if 4 dvd y then 1 else 0)"
    using div_step [of 4 "y - 1969"] dvd_shift [of 4 1968 y] by (simp add: algebra_simps)
  have a100: "(y + 1 - 1901) div 100 = (y - 1901) div 100 + (if 100 dvd y then 1 else 0)"
    using div_step [of 100 "y - 1901"] dvd_shift [of 100 1900 y] by (simp add: algebra_simps)
  have a400: "(y + 1 - 1601) div 400 = (y - 1601) div 400 + (if 400 dvd y then 1 else 0)"
    using div_step [of 400 "y - 1601"] dvd_shift [of 400 1600 y] by (simp add: algebra_simps)
  have t1: "100 dvd y" if "400 dvd y"
    by (rule dvd_trans [of 100 400 y], simp, rule that)
  have t2: "4 dvd y" if "100 dvd y"
    by (rule dvd_trans [of 4 100 y], simp, rule that)
  show ?thesis
    unfolding day_from_year_def a4 a100 a400 year_length_def leap_year_def
    using t1 t2 by auto
qed

lemma div_bounds:
  fixes a k :: int
  assumes "0 < k"
  shows "k * (a div k) \<le> a" and "a < k * (a div k) + k"
proof -
  have "a = k * (a div k) + a mod k" by simp
  moreover have "0 \<le> a mod k" "a mod k < k" using assms by simp_all
  ultimately show "k * (a div k) \<le> a" and "a < k * (a div k) + k" by linarith+
qed

lemma day_from_year_bounds:
  assumes "100 \<le> y" and "y \<le> 9999"
  shows "- 700000 \<le> day_from_year y" and "day_from_year y \<le> 3000000"
proof -
  define q4 where "q4 = (y - 1969) div 4"
  define q100 where "q100 = (y - 1901) div 100"
  define q400 where "q400 = (y - 1601) div 400"
  have p: "(0::int) < 4" "(0::int) < 100" "(0::int) < 400"
    by simp_all
  note b4 = div_bounds [OF p(1), of "y - 1969", folded q4_def]
  note b100 = div_bounds [OF p(2), of "y - 1901", folded q100_def]
  note b400 = div_bounds [OF p(3), of "y - 1601", folded q400_def]
  have d: "day_from_year y = 365 * y - 719050 + q4 - q100 + q400"
    by (simp add: day_from_year_def q4_def q100_def q400_def algebra_simps)
  have l4: "- 469 \<le> q4" and u4: "q4 \<le> 2008"
    using assms b4 by linarith+
  have l100: "- 20 \<le> q100" and u100: "q100 \<le> 81"
    using assms b100 by linarith+
  have l400: "- 5 \<le> q400" and u400: "q400 \<le> 21"
    using assms b400 by linarith+
  show "- 700000 \<le> day_from_year y"
    unfolding d using assms(1) l4 u100 l400 by linarith
  show "day_from_year y \<le> 3000000"
    unfolding d using assms(2) u4 l100 u400 by linarith
qed

lemma days_before_year_up:
  assumes "1970 \<le> y"
  shows "sum_list (map year_length [1970..y - 1]) = day_from_year y"
  using assms
proof (induction y rule: int_ge_induct)
  case base
  show ?case by (simp add: day_from_year_def)
next
  case (step i)
  have "[1970..i + 1 - 1] = [1970..i - 1] @ [i]"
    using step(1) upto_rec2 [of 1970 i] by simp
  with step show ?case
    by (simp add: day_from_year_step)
qed

lemma days_before_year_down:
  assumes "y \<le> 1969"
  shows "- sum_list (map year_length [y..1969]) = day_from_year y"
  using assms
proof (induction y rule: int_le_induct)
  case base
  show ?case by (simp add: day_from_year_def year_length_def leap_year_def)
next
  case (step i)
  have "[i - 1..1969] = (i - 1) # [i..1969]"
    using step(1) upto_rec1 [of "i - 1" 1969] by simp
  moreover have "day_from_year i = day_from_year (i - 1) + year_length (i - 1)"
    using day_from_year_step [of "i - 1"] by simp
  ultimately show ?case
    using step(2) by simp
qed

lemma days_before_year_eq: "days_before_year y = day_from_year y"
  using days_before_year_up [of y] days_before_year_down [of y]
  by (simp add: days_before_year_def)

lemma month_start_eq:
  assumes "1 \<le> m" and "m \<le> 12"
  shows "month_start (is_leap y) (m - 1) = days_before_month y m"
proof -
  from assms have "m = 1 \<or> m = 2 \<or> m = 3 \<or> m = 4 \<or> m = 5 \<or> m = 6 \<or> m = 7 \<or> m = 8
      \<or> m = 9 \<or> m = 10 \<or> m = 11 \<or> m = 12"
    by presburger
  then show ?thesis
    by (elim disjE)
      (simp_all add: month_start_def days_before_month_def month_length_def is_leap_eq
         upto_rec1)
qed

lemma days_before_month_bounds:
  assumes "1 \<le> m" and "m \<le> 12"
  shows "0 \<le> days_before_month y m" and "days_before_month y m \<le> 335"
  using month_start_eq [OF assms, of y, symmetric] assms
  by (auto simp: month_start_def nth_Cons' split: if_splits)

lemma month_length_le: "month_length y m \<le> 31"
  by (simp add: month_length_def)

lemma to_integer_int [simp]: "to_integer (of_int n) = n"
  by (simp add: to_integer_def)

lemma time_clip_int:
  assumes "\<bar>t\<bar> \<le> 8640000000000000"
  shows "time_clip (Fin (of_int t)) = Some t"
proof -
  from assms have "(of_int \<bar>t\<bar> :: rat) \<le> of_int 8640000000000000"
    by (simp only: of_int_le_iff)
  then have "\<not> 8640000000000000 < \<bar>of_int t :: rat\<bar>"
    by simp
  then show ?thesis
    by (simp add: time_clip_def)
qed

lemma date_UTC_midnight:
  assumes "100 \<le> y" and "y \<le> 9999" and "valid_date y m d"
  shows "date_UTC (Fin (of_int y)) (Fin (of_int (m - 1))) (Fin (of_int d))
           = Fin (of_int (utc_midnight y m d))"
proof -
  from assms(3) have m: "1 \<le> m" "m \<le> 12" and d: "1 \<le> d" "d \<le> 31"
    using month_length_le [of y m] by (simp_all add: valid_date_def)
  have fy: "full_year (Fin (of_int y)) = Fin (of_int y)"
    using assms(1) by (simp add: full_year_def)
  have mm: "(m - 1) div 12 = 0" "(m - 1) mod 12 = m - 1"
    using m by simp_all
  define d0 where "d0 = days_before_year y + days_before_month y m"
  have md: "month_day y (m - 1) = d0"
    by (simp add: month_day_def d0_def days_before_year_eq month_start_eq [OF m])
  have b: "- 700000 \<le> d0" "d0 \<le> 3000335"
    using day_from_year_bounds [OF assms(1,2)] days_before_month_bounds [OF m, of y]
    by (simp_all add: d0_def days_before_year_eq)
  then have r1: "\<not> 8640000000000000 < \<bar>d0 * 86400000\<bar>"
    by simp
  have mk: "make_day (Fin (of_int y)) (Fin (of_int (m - 1))) (Fin (of_int d)) = Some (d0 + d - 1)"
    using r1 by (simp add: make_day_def mm md day_in_month_def del: of_int_diff)
  have "\<bar>(d0 + d - 1) * 86400000\<bar> \<le> 8640000000000000"
    using b d by simp
  then have "time_clip (Fin (of_int ((d0 + d - 1) * 86400000))) = Some ((d0 + d - 1) * 86400000)"
    by (rule time_clip_int)
  then show ?thesis
    by (simp add: date_UTC_def fy mk date_value_def utc_midnight_def d0_def
        del: of_int_mult of_int_add of_int_diff)
qed

end
